theory Spec2Isabelle
  imports Main "HOL-Library.Word"
begin

section \<open>VM opcodes (boa3/neo/vm/opcode/Opcode.py)\<close>

text \<open>
  \<open>Opcode\<close> is a \<open>bytes\<close>-valued enumeration. A member is modelled as the pair of
  its name and its value; \<open>Opcode_members\<close> lists the members in the order in which the
  class body defines them.
\<close>

type_synonym byte = "8 word"

type_synonym Opcode = "string \<times> byte list"

definition Opcode_members :: "Opcode list" where
  "Opcode_members = [
   (''PUSHINT8'', [0x00]), (''PUSHINT16'', [0x01]), (''PUSHINT32'', [0x02]), (''PUSHINT64'', 
   [0x03]), (''PUSHINT128'', [0x04]), (''PUSHINT256'', [0x05]), (''PUSHA'', [0x0A]), 
   (''PUSHNULL'', [0x0B]), (''PUSHDATA1'', [0x0C]), (''PUSHDATA2'', [0x0D]), (''PUSHDATA4'', 
   [0x0E]), (''PUSHM1'', [0x0F]), (''PUSH0'', [0x10]), (''PUSH1'', [0x11]), (''PUSH2'', [0x12]), 
   (''PUSH3'', [0x13]), (''PUSH4'', [0x14]), (''PUSH5'', [0x15]), (''PUSH6'', [0x16]), (''PUSH7'', 
   [0x17]), (''PUSH8'', [0x18]), (''PUSH9'', [0x19]), (''PUSH10'', [0x1A]), (''PUSH11'', [0x1B]), 
   (''PUSH12'', [0x1C]), (''PUSH13'', [0x1D]), (''PUSH14'', [0x1E]), (''PUSH15'', [0x1F]), 
   (''PUSH16'', [0x20]), (''NOP'', [0x21]), (''JMP'', [0x22]), (''JMP_L'', [0x23]), (''JMPIF'', 
   [0x24]), (''JMPIF_L'', [0x25]), (''JMPIFNOT'', [0x26]), (''JMPIFNOT_L'', [0x27]), (''JMPEQ'', 
   [0x28]), (''JMPEQ_L'', [0x29]), (''JMPNE'', [0x2A]), (''JMPNE_L'', [0x2B]), (''JMPGT'', 
   [0x2C]), (''JMPGT_L'', [0x2D]), (''JMPGE'', [0x2E]), (''JMPGE_L'', [0x2F]), (''JMPLT'', 
   [0x30]), (''JMPLT_L'', [0x31]), (''JMPLE'', [0x32]), (''JMPLE_L'', [0x33]), (''CALL'', [0x34]), 
   (''CALL_L'', [0x35]), (''CALLA'', [0x36]), (''ABORT'', [0x37]), (''ASSERT'', [0x38]), 
   (''THROW'', [0x3A]), (''TRY'', [0x3B]), (''TRY_L'', [0x3C]), (''ENDTRY'', [0x3D]), 
   (''ENDTRY_L'', [0x3E]), (''ENDFINALLY'', [0x3F]), (''RET'', [0x40]), (''SYSCALL'', [0x41]), 
   (''DEPTH'', [0x43]), (''DROP'', [0x45]), (''NIP'', [0x46]), (''XDROP'', [0x48]), (''CLEAR'', 
   [0x49]), (''DUP'', [0x4A]), (''OVER'', [0x4B]), (''PICK'', [0x4D]), (''TUCK'', [0x4E]), 
   (''SWAP'', [0x50]), (''ROT'', [0x51]), (''ROLL'', [0x52]), (''REVERSE3'', [0x53]), 
   (''REVERSE4'', [0x54]), (''REVERSEN'', [0x55]), (''INITSSLOT'', [0x56]), (''INITSLOT'', 
   [0x57]), (''LDSFLD0'', [0x58]), (''LDSFLD1'', [0x59]), (''LDSFLD2'', [0x5A]), (''LDSFLD3'', 
   [0x5B]), (''LDSFLD4'', [0x5C]), (''LDSFLD5'', [0x5D]), (''LDSFLD6'', [0x5E]), (''LDSFLD'', 
   [0x5F]), (''STSFLD0'', [0x60]), (''STSFLD1'', [0x61]), (''STSFLD2'', [0x62]), (''STSFLD3'', 
   [0x63]), (''STSFLD4'', [0x64]), (''STSFLD5'', [0x65]), (''STSFLD6'', [0x66]), (''STSFLD'', 
   [0x67]), (''LDLOC0'', [0x68]), (''LDLOC1'', [0x69]), (''LDLOC2'', [0x6A]), (''LDLOC3'', 
   [0x6B]), (''LDLOC4'', [0x6C]), (''LDLOC5'', [0x6D]), (''LDLOC6'', [0x6E]), (''LDLOC'', [0x6F]), 
   (''STLOC0'', [0x70]), (''STLOC1'', [0x71]), (''STLOC2'', [0x72]), (''STLOC3'', [0x73]), 
   (''STLOC4'', [0x74]), (''STLOC5'', [0x75]), (''STLOC6'', [0x76]), (''STLOC'', [0x77]), 
   (''LDARG0'', [0x78]), (''LDARG1'', [0x79]), (''LDARG2'', [0x7A]), (''LDARG3'', [0x7B]), 
   (''LDARG4'', [0x7C]), (''LDARG5'', [0x7D]), (''LDARG6'', [0x7E]), (''LDARG'', [0x7F]), 
   (''STARG0'', [0x80]), (''STARG1'', [0x81]), (''STARG2'', [0x82]), (''STARG3'', [0x83]), 
   (''STARG4'', [0x84]), (''STARG5'', [0x85]), (''STARG6'', [0x86]), (''STARG'', [0x87]), 
   (''NEWBUFFER'', [0x88]), (''MEMCPY'', [0x89]), (''CAT'', [0x8B]), (''SUBSTR'', [0x8C]), 
   (''LEFT'', [0x8D]), (''RIGHT'', [0x8E]), (''INVERT'', [0x90]), (''AND'', [0x91]), (''OR'', 
   [0x92]), (''XOR'', [0x93]), (''EQUAL'', [0x97]), (''NOTEQUAL'', [0x98]), (''SIGN'', [0x99]), 
   (''ABS'', [0x9A]), (''NEGATE'', [0x9B]), (''INC'', [0x9C]), (''DEC'', [0x9D]), (''ADD'', 
   [0x9E]), (''SUB'', [0x9F]), (''MUL'', [0xA0]), (''DIV'', [0xA1]), (''MOD'', [0xA2]), (''SHL'', 
   [0xA8]), (''SHR'', [0xA9]), (''NOT'', [0xAA]), (''BOOLAND'', [0xAB]), (''BOOLOR'', [0xAC]), 
   (''NZ'', [0xB1]), (''NUMEQUAL'', [0xB3]), (''NUMNOTEQUAL'', [0xB4]), (''LT'', [0xB5]), (''LE'', 
   [0xB6]), (''GT'', [0xB7]), (''GE'', [0xB8]), (''MIN'', [0xB9]), (''MAX'', [0xBA]), (''WITHIN'', 
   [0xBB]), (''PACK'', [0xC0]), (''UNPACK'', [0xC1]), (''NEWARRAY0'', [0xC2]), (''NEWARRAY'', 
   [0xC3]), (''NEWARRAY_T'', [0xC4]), (''NEWSTRUCT0'', [0xC5]), (''NEWSTRUCT'', [0xC6]), 
   (''NEWMAP'', [0xC8]), (''SIZE'', [0xCA]), (''HASKEY'', [0xCB]), (''KEYS'', [0xCC]), 
   (''VALUES'', [0xCD]), (''PICKITEM'', [0xCE]), (''APPEND'', [0xCF]), (''SETITEM'', [0xD0]), 
   (''REVERSEITEMS'', [0xD1]), (''REMOVE'', [0xD2]), (''CLEARITEMS'', [0xD3]), (''ISNULL'', 
   [0xD8]), (''ISTYPE'', [0xD9]), (''CONVERT'', [0xDB])]"

definition Opcode_PUSH0 :: Opcode where
  "Opcode_PUSH0 = (''PUSH0'', [0x10])"

text \<open>Python exceptions other than the compiler's own diagnostics.\<close>

datatype builtin_error = ValueError | IndexError | AttributeError | KeyError | NotImplementedError

text \<open>
  \<open>Opcode(value)\<close>: the enumeration's lookup by value, which raises \<open>ValueError\<close> when
  no member has the value.
\<close>

definition Opcode_call :: "byte list \<Rightarrow> builtin_error + Opcode" where
  "Opcode_call v =
     (case find (\<lambda>m. snd m = v) Opcode_members of
        None \<Rightarrow> Inl ValueError
      | Some m \<Rightarrow> Inr m)"

text \<open>
  The class \<open>Integer\<close> (boa3/neo/vm/type/Integer.py) is not part of the sources at hand;
  its two conversions are parameters of \<open>get_literal_push\<close>.
\<close>

record Integer_cls =
  from_bytes :: "byte list \<Rightarrow> int"
  to_byte_array :: "int \<Rightarrow> byte list"

definition get_literal_push :: "Integer_cls \<Rightarrow> int \<Rightarrow> builtin_error + Opcode option" where
  "get_literal_push I integer =
     (if -1 \<le> integer \<and> integer \<le> 16 then
        (let opcode_value = from_bytes I (snd Opcode_PUSH0) + integer
         in case Opcode_call (to_byte_array I opcode_value) of
              Inl e \<Rightarrow> Inl e
            | Inr m \<Rightarrow> Inr (Some m))
      else Inr None)"

text \<open>
  An instance of the parameter for evaluation: unsigned little-endian bytes, as few as
  the value needs.
\<close>

fun le_value :: "byte list \<Rightarrow> nat" where
  "le_value [] = 0"
| "le_value (b # bs) = unat b + 256 * le_value bs"

fun le_bytes :: "nat \<Rightarrow> byte list" where
  "le_bytes n = (if n = 0 then [] else word_of_nat (n mod 256) # le_bytes (n div 256))"

definition Integer_le :: Integer_cls where
  "Integer_le = \<lparr> from_bytes = (\<lambda>bs. int (le_value bs)),
                   to_byte_array = (\<lambda>v. le_bytes (nat v)) \<rparr>"

section \<open>Types (boa3/model/type)\<close>

text \<open>
  The built-in type descriptors \<open>Type.int\<close>, \<open>Type.bool\<close>, \<open>Type.str\<close> and
  \<open>Type.none\<close> are singletons; a sequence type carries its name, its \<open>value_type\<close>
  and its \<open>valid_key\<close>. Identity of the four singletons is equality of constructors.
\<close>

datatype itype =
    Type_int
  | Type_bool
  | Type_str
  | Type_none
  | SequenceType string itype itype

text \<open>
  Modelled from the spec: the module boa3/model/type/type.py and the class
  \<open>SequenceType\<close> are missing. The identifiers are those of the spec
  (\<open>int\<close>, \<open>str\<close>, \<open>bool\<close>, \<open>none\<close>, and a sequence rendered as its name followed by
  the value type in brackets); \<open>int\<close> is also what \<open>IntType.__init__\<close> sets.
\<close>

fun type_identifier :: "itype \<Rightarrow> string" where
  "type_identifier Type_int = ''int''"
| "type_identifier Type_bool = ''bool''"
| "type_identifier Type_str = ''str''"
| "type_identifier Type_none = ''none''"
| "type_identifier (SequenceType name value_type valid_key) = name @ ''['' @ type_identifier value_type @ '']''"

text \<open>
  Modelled from the spec: \<open>SequenceType.is_valid_key\<close> is missing; it is true iff the
  given type matches the declared key type of the sequence.
\<close>

fun is_valid_key :: "itype \<Rightarrow> itype \<Rightarrow> bool" where
  "is_valid_key (SequenceType name value_type valid_key) t = (t = valid_key)"
| "is_valid_key _ t = False"

section \<open>Operators and operations (boa3/model/operation)\<close>

text \<open>
  Modelled from the spec: the enumeration \<open>Operator\<close> (boa3/model/operation/operator.py)
  is missing; its members are the ones the spec lists, each of which the analyser names.
\<close>

datatype operator =
    Operator_Plus | Operator_Minus | Operator_Mult | Operator_IntDiv | Operator_Mod
  | Operator_Eq | Operator_NotEq | Operator_Lt | Operator_LtE | Operator_Gt | Operator_GtE
  | Operator_Is | Operator_IsNot | Operator_And | Operator_Or | Operator_Not
  | Operator_Subscript

text \<open>
  The fields of a binary and of a unary operation that the analyser and \<open>Concat\<close> read
  (the base classes \<open>BinaryOperation\<close> and \<open>UnaryOperation\<close> are missing).
  \<open>class_name\<close> is the name of the object's class, which \<open>type(x).__name__\<close> yields.
\<close>

record BinaryOperation =
  class_name :: string
  operator :: operator
  left_type :: itype
  right_type :: itype
  result :: itype
  is_supported :: bool

record UnaryOperation =
  un_class_name :: string
  un_operator :: operator
  operand_type :: itype
  un_result :: itype
  un_is_supported :: bool

subsection \<open>String concatenation (boa3/model/operation/binary/arithmetic/concat.py)\<close>

definition Concat_valid_types :: "itype list" where
  "Concat_valid_types = [Type_str]"

text \<open>A binary operation has two operands (\<open>_get_number_of_operands\<close> of the missing base class).\<close>

definition BinaryOperation_get_number_of_operands :: nat where
  "BinaryOperation_get_number_of_operands = 2"

definition Concat_validate_type :: "itype list \<Rightarrow> bool" where
  "Concat_validate_type types =
     (if length types \<noteq> BinaryOperation_get_number_of_operands then False
      else (let left = types ! 0; right = types ! 1
            in left = right \<and> left \<in> set Concat_valid_types))"

definition Concat_get_result :: "itype \<Rightarrow> itype \<Rightarrow> itype" where
  "Concat_get_result left right =
     (if Concat_validate_type [left, right] then left else Type_none)"

definition Concat_is_supported :: bool where
  "Concat_is_supported = False"

text \<open>
  \<open>Concat(left, right)\<close>; the base class initialiser stores the operand types and the
  result that \<open>_get_result\<close> computes from them.
\<close>

definition Concat_init :: "itype \<Rightarrow> itype \<Rightarrow> BinaryOperation" where
  "Concat_init left right =
     \<lparr> class_name = ''Concat'', operator = Operator_Plus, left_type = left, right_type = right,
       result = Concat_get_result left right, is_supported = Concat_is_supported \<rparr>"

text \<open>\<open>Concat()\<close> with the default arguments \<open>Type.str\<close>, \<open>Type.str\<close>.\<close>

definition Concat :: BinaryOperation where
  "Concat = Concat_init Type_str Type_str"

section \<open>The syntax tree (Python's \<open>ast\<close>, version 3.7)\<close>

text \<open>The operator classes of \<open>ast\<close>: \<open>boolop\<close>, \<open>operator\<close>, \<open>unaryop\<close> and \<open>cmpop\<close>.\<close>

datatype ast_op =
    ast_And | ast_Or
  | ast_Add | ast_Sub | ast_Mult | ast_MatMult | ast_Div | ast_Mod | ast_Pow
  | ast_LShift | ast_RShift | ast_BitOr | ast_BitXor | ast_BitAnd | ast_FloorDiv
  | ast_Invert | ast_Not | ast_UAdd | ast_USub
  | ast_Eq | ast_NotEq | ast_Lt | ast_LtE | ast_Gt | ast_GtE | ast_Is | ast_IsNot
  | ast_In | ast_NotIn

fun ast_op_name :: "ast_op \<Rightarrow> string" where
  "ast_op_name ast_And = ''And''" | "ast_op_name ast_Or = ''Or''"
| "ast_op_name ast_Add = ''Add''" | "ast_op_name ast_Sub = ''Sub''"
| "ast_op_name ast_Mult = ''Mult''" | "ast_op_name ast_MatMult = ''MatMult''"
| "ast_op_name ast_Div = ''Div''" | "ast_op_name ast_Mod = ''Mod''"
| "ast_op_name ast_Pow = ''Pow''" | "ast_op_name ast_LShift = ''LShift''"
| "ast_op_name ast_RShift = ''RShift''" | "ast_op_name ast_BitOr = ''BitOr''"
| "ast_op_name ast_BitXor = ''BitXor''" | "ast_op_name ast_BitAnd = ''BitAnd''"
| "ast_op_name ast_FloorDiv = ''FloorDiv''" | "ast_op_name ast_Invert = ''Invert''"
| "ast_op_name ast_Not = ''Not''" | "ast_op_name ast_UAdd = ''UAdd''"
| "ast_op_name ast_USub = ''USub''" | "ast_op_name ast_Eq = ''Eq''"
| "ast_op_name ast_NotEq = ''NotEq''" | "ast_op_name ast_Lt = ''Lt''"
| "ast_op_name ast_LtE = ''LtE''" | "ast_op_name ast_Gt = ''Gt''"
| "ast_op_name ast_GtE = ''GtE''" | "ast_op_name ast_Is = ''Is''"
| "ast_op_name ast_IsNot = ''IsNot''" | "ast_op_name ast_In = ''In''"
| "ast_op_name ast_NotIn = ''NotIn''"

text \<open>
  The operator slot of a node (\<open>bin_op.op\<close>, \<open>un_op.op\<close>, \<open>compare.ops[i]\<close>,
  \<open>bool_op.op\<close>). The parser fills it with an instance of an operator class; the analyser
  overwrites it with an operation, or with \<open>None\<close>. An \<open>Operator\<close> member is a further
  value the slot can hold.
\<close>

datatype slot =
    slot_ast ast_op
  | slot_Operator operator
  | slot_BinaryOperation BinaryOperation
  | slot_UnaryOperation UnaryOperation
  | slot_None

text \<open>The value \<open>n\<close> of a number literal and the value of a name constant.\<close>

datatype num_value = n_int int | n_float string | n_complex string

datatype constant_value = c_True | c_False | c_None

text \<open>
  Expression nodes, each with \<open>lineno\<close> and \<open>col_offset\<close> first. \<open>Index\<close> and \<open>Slice\<close> are
  the slices of a subscript and carry no position. \<open>OtherExpr\<close> is a node of any class
  for which the analyser defines no visitor, with its child expressions in field order;
  \<open>Slice\<close> likewise holds the child expressions of a slice that is not an \<open>Index\<close>.
\<close>

datatype expr =
    BinOp int int slot expr expr
  | UnaryOp int int slot expr
  | Compare int int expr "slot list" "expr list"
  | BoolOp int int slot "expr list"
  | Num int int num_value
  | Str int int string
  | Tuple int int "expr list"
  | NameConstant int int constant_value
  | Name int int string
  | Subscript int int expr expr
  | Index expr
  | Slice "expr list"
  | IfExp int int expr expr expr
  | OtherExpr int int "expr list"

text \<open>\<open>BinOp lineno col_offset op left right\<close>, \<open>Compare lineno col_offset left ops comparators\<close>,
  \<open>Subscript lineno col_offset value slice\<close>, \<open>IfExp lineno col_offset test body orelse\<close>.\<close>

text \<open>\<open>node.lineno\<close> and \<open>node.col_offset\<close>; \<open>None\<close> stands for the \<open>AttributeError\<close> of a
  node without position.\<close>

fun position :: "expr \<Rightarrow> (int \<times> int) option" where
  "position (BinOp l c _ _ _) = Some (l, c)"
| "position (UnaryOp l c _ _) = Some (l, c)"
| "position (Compare l c _ _ _) = Some (l, c)"
| "position (BoolOp l c _ _) = Some (l, c)"
| "position (Num l c _) = Some (l, c)"
| "position (Str l c _) = Some (l, c)"
| "position (Tuple l c _) = Some (l, c)"
| "position (NameConstant l c _) = Some (l, c)"
| "position (Name l c _) = Some (l, c)"
| "position (Subscript l c _ _) = Some (l, c)"
| "position (Index _) = None"
| "position (Slice _) = None"
| "position (IfExp l c _ _ _) = Some (l, c)"
| "position (OtherExpr l c _) = Some (l, c)"

text \<open>\<open>arg lineno col_offset arg annotation\<close> and
  \<open>arguments args vararg kwonlyargs kw_defaults kwarg defaults\<close> (the entries of
  \<open>kw_defaults\<close> that are nodes).\<close>

datatype arg = arg int int string "expr option"

datatype arguments = arguments "arg list" "arg option" "arg list" "expr list" "arg option" "expr list"

text \<open>
  Statements: \<open>FunctionDef lineno col_offset name args body\<close>,
  \<open>Return lineno col_offset value\<close>, \<open>Assign lineno col_offset targets value\<close>,
  \<open>While lineno col_offset test body orelse\<close>, \<open>If lineno col_offset test body orelse\<close>.
  \<open>OtherStmt\<close> is a statement of any class without a visitor (an expression statement,
  \<open>pass\<close>, ...), with its child nodes in field order.
\<close>

datatype stmt =
    FunctionDef int int string arguments "stmt list"
  | Return int int "expr option"
  | Assign int int "expr list" expr
  | While int int expr "stmt list" "stmt list"
  | If int int expr "stmt list" "stmt list"
  | Break
  | Continue
  | OtherStmt "(expr + stmt) list"

datatype module = Module "stmt list"

section \<open>Symbols and values\<close>

text \<open>
  Modelled from the spec: the symbol classes (boa3/model) are missing. A symbol is a
  type, an expression that exposes \<open>type\<close>, a method with \<open>return_type\<close> and \<open>symbols\<close>,
  or a module with \<open>symbols\<close>. Dictionaries are association lists in insertion order.
  Python compares methods by identity: the first component of \<open>sym_Method\<close> stands for
  the identity of the object.
\<close>

datatype symbol =
    sym_Type itype
  | sym_Expression itype
  | sym_Method nat itype "(string \<times> symbol) list"
  | sym_Module "(string \<times> symbol) list"

text \<open>\<open>x.symbols\<close> and \<open>x.return_type\<close>; \<open>None\<close> stands for the \<open>AttributeError\<close>.\<close>

fun symbols_attr :: "symbol \<Rightarrow> (string \<times> symbol) list option" where
  "symbols_attr (sym_Method _ _ syms) = Some syms"
| "symbols_attr (sym_Module syms) = Some syms"
| "symbols_attr _ = None"

fun return_type_attr :: "symbol \<Rightarrow> itype option" where
  "return_type_attr (sym_Method _ rt _) = Some rt"
| "return_type_attr _ = None"

text \<open>
  The values that a visitor returns and that \<open>get_type\<close> receives. \<open>py_Name\<close> is an
  \<open>ast.Name\<close> node, the one kind of node that a visitor returns as its value.
\<close>

datatype pyval =
    py_None
  | py_bool bool
  | py_int int
  | py_float string
  | py_complex string
  | py_str string
  | py_tuple "expr list"
  | py_Name int int string
  | py_symbol symbol

datatype pyclass =
    cls_NoneType | cls_bool | cls_int | cls_float | cls_complex | cls_str | cls_tuple
  | cls_Name | cls_IType | cls_IExpression | cls_Method | cls_Module

text \<open>\<open>type(value)\<close>.\<close>

fun type_of :: "pyval \<Rightarrow> pyclass" where
  "type_of py_None = cls_NoneType"
| "type_of (py_bool _) = cls_bool"
| "type_of (py_int _) = cls_int"
| "type_of (py_float _) = cls_float"
| "type_of (py_complex _) = cls_complex"
| "type_of (py_str _) = cls_str"
| "type_of (py_tuple _) = cls_tuple"
| "type_of (py_Name _ _ _) = cls_Name"
| "type_of (py_symbol (sym_Type _)) = cls_IType"
| "type_of (py_symbol (sym_Expression _)) = cls_IExpression"
| "type_of (py_symbol (sym_Method _ _ _)) = cls_Method"
| "type_of (py_symbol (sym_Module _)) = cls_Module"

subsection \<open>The integer type (boa3/model/type/inttype.py)\<close>

definition IntType_is_type_of :: "pyval \<Rightarrow> bool" where
  "IntType_is_type_of v = (type_of v = cls_int)"

definition IntType_build :: "pyval \<Rightarrow> itype option" where
  "IntType_build v = (if IntType_is_type_of v then Some Type_int else None)"

section \<open>Diagnostics (boa3/exception) and the analyser's state\<close>

text \<open>
  Modelled from the spec: the module boa3/exception/CompilerError.py is missing. Each
  error carries line and column first, then its payload as the analyser passes it.
  The last component of \<open>MismatchedTypes\<close> tells whether the two type identifiers were
  passed positionally: \<open>args\<close> of a Python exception holds the positional arguments of
  the constructor only, and the handlers of the analyser read \<open>args[2]\<close> and \<open>args[3]\<close>.
  The components of \<open>MismatchedTypes\<close> are line, column, expected and actual type.
\<close>

datatype not_supported = ns_operator operator | ns_text string

datatype CompilerError =
    TypeHintMissing int int "string option"
  | TooManyReturns int int
  | MismatchedTypes int int string string bool
  | NotSupportedOperation int int not_supported
  | UnresolvedReference int int string
  | UnresolvedOperation int int string operator
  | InvalidType int int string
  | IncorrectNumberOfOperands int int int int

datatype pyexn = Compiler CompilerError | Builtin builtin_error

text \<open>
  The fields of \<open>TypeAnalyser\<close> that the walk reads or writes (\<open>warnings\<close> and
  \<open>type_errors\<close> are never touched). \<open>modules\<close> maps a name to a module symbol.
\<close>

record TypeAnalyser =
  errors :: "CompilerError list"
  modules :: "(string \<times> symbol) list"
  symbols :: "(string \<times> symbol) list"
  current_method :: "symbol option"

text \<open>
  The operation registry (\<open>BinaryOp\<close>, \<open>UnaryOp\<close>) and \<open>Type.get_type\<close> are missing
  from the sources at hand: they are parameters of the analyser.
\<close>

record externals =
  BinaryOp_validate_type :: "operator \<Rightarrow> itype \<Rightarrow> itype \<Rightarrow> BinaryOperation option"
  BinaryOp_get_operation_by_operator :: "operator \<Rightarrow> BinaryOperation option"
  UnaryOp_validate_type :: "operator \<Rightarrow> itype \<Rightarrow> UnaryOperation option"
  UnaryOp_get_operation_by_operator :: "operator \<Rightarrow> UnaryOperation option"
  Type_get_type :: "pyval \<Rightarrow> itype"

section \<open>The type analyser (boa3/analyser/typeanalyser.py, astanalyser.py)\<close>

text \<open>\<open>TypeAnalyser.__operators\<close>.\<close>

fun TypeAnalyser_operators :: "ast_op \<Rightarrow> operator option" where
  "TypeAnalyser_operators ast_Add = Some Operator_Plus"
| "TypeAnalyser_operators ast_Sub = Some Operator_Minus"
| "TypeAnalyser_operators ast_Mult = Some Operator_Mult"
| "TypeAnalyser_operators ast_FloorDiv = Some Operator_IntDiv"
| "TypeAnalyser_operators ast_Mod = Some Operator_Mod"
| "TypeAnalyser_operators ast_UAdd = Some Operator_Plus"
| "TypeAnalyser_operators ast_USub = Some Operator_Minus"
| "TypeAnalyser_operators ast_Eq = Some Operator_Eq"
| "TypeAnalyser_operators ast_NotEq = Some Operator_NotEq"
| "TypeAnalyser_operators ast_Lt = Some Operator_Lt"
| "TypeAnalyser_operators ast_LtE = Some Operator_LtE"
| "TypeAnalyser_operators ast_Gt = Some Operator_Gt"
| "TypeAnalyser_operators ast_GtE = Some Operator_GtE"
| "TypeAnalyser_operators ast_Is = Some Operator_Is"
| "TypeAnalyser_operators ast_IsNot = Some Operator_IsNot"
| "TypeAnalyser_operators ast_And = Some Operator_And"
| "TypeAnalyser_operators ast_Or = Some Operator_Or"
| "TypeAnalyser_operators ast_Not = Some Operator_Not"
| "TypeAnalyser_operators _ = None"

text \<open>\<open>_log_error\<close>: append the error, then raise it.\<close>

definition log_error :: "TypeAnalyser \<Rightarrow> CompilerError \<Rightarrow> TypeAnalyser \<times> (pyexn + 'a)" where
  "log_error self error = (self\<lparr>errors := errors self @ [error]\<rparr>, Inl (Compiler error))"

text \<open>\<open>__current_method_id\<close>: the first key of \<open>symbols\<close> whose value is the current method.\<close>

definition current_method_id :: "TypeAnalyser \<Rightarrow> string option" where
  "current_method_id self =
     (case current_method self of
        None \<Rightarrow> None
      | Some m \<Rightarrow> map_option fst (find (\<lambda>kv. snd kv = m) (symbols self)))"

definition get_symbol :: "TypeAnalyser \<Rightarrow> string \<Rightarrow> builtin_error + symbol option" where
  "get_symbol self symbol_id =
     (let outer =
        (if map_of (modules self) symbol_id \<noteq> None then map_of (modules self) symbol_id
         else if map_of (symbols self) symbol_id \<noteq> None then map_of (symbols self) symbol_id
         else None)
      in case current_method self of
           None \<Rightarrow> Inr outer
         | Some m \<Rightarrow>
             (case symbols_attr m of
                None \<Rightarrow> Inl AttributeError
              | Some locals \<Rightarrow>
                  (if map_of locals symbol_id \<noteq> None then Inr (map_of locals symbol_id)
                   else Inr outer)))"

text \<open>A looked-up symbol as a value: \<open>None\<close> when the identifier was not found.\<close>

fun of_optional :: "symbol option \<Rightarrow> pyval" where
  "of_optional None = py_None"
| "of_optional (Some s) = py_symbol s"

text \<open>
  \<open>IAstAnalyser.get_type\<close>. The one node that reaches it is a \<open>Name\<close>: visiting it
  returns the node, whose \<open>id\<close> is then looked up with \<open>get_symbol\<close>.
\<close>

definition get_type :: "externals \<Rightarrow> TypeAnalyser \<Rightarrow> pyval \<Rightarrow> builtin_error + itype" where
  "get_type ext self v =
     (case (case v of
              py_Name _ _ ident \<Rightarrow>
                (case get_symbol self ident of Inl e \<Rightarrow> Inl e | Inr s \<Rightarrow> Inr (of_optional s))
            | _ \<Rightarrow> Inr v) of
        Inl e \<Rightarrow> Inl e
      | Inr val \<Rightarrow>
          Inr (case val of
                 py_symbol (sym_Type t) \<Rightarrow> t
               | py_symbol (sym_Expression t) \<Rightarrow> t
               | _ \<Rightarrow> Type_get_type ext val))"

text \<open>\<open>type(node).__name__\<close> of the object in an operator slot.\<close>

fun type_name :: "slot \<Rightarrow> string" where
  "type_name (slot_ast a) = ast_op_name a"
| "type_name (slot_Operator _) = ''Operator''"
| "type_name (slot_BinaryOperation b) = class_name b"
| "type_name (slot_UnaryOperation u) = un_class_name u"
| "type_name slot_None = ''NoneType''"

fun get_operator :: "slot \<Rightarrow> operator option" where
  "get_operator (slot_Operator oper) = Some oper"
| "get_operator (slot_ast a) = TypeAnalyser_operators a"
| "get_operator _ = None"

text \<open>The format \<open>"%s', '%s"\<close> of \<open>get_bin_op\<close>.\<close>

definition format_types :: "string \<Rightarrow> string \<Rightarrow> string" where
  "format_types a b = a @ [CHR 0x27, CHR '','', CHR '' '', CHR 0x27] @ b"

definition get_bin_op ::
  "externals \<Rightarrow> TypeAnalyser \<Rightarrow> operator \<Rightarrow> pyval \<Rightarrow> pyval \<Rightarrow> pyexn + BinaryOperation" where
  "get_bin_op ext self oper right left =
     (case get_type ext self left of
        Inl e \<Rightarrow> Inl (Builtin e)
      | Inr l_type \<Rightarrow>
     (case get_type ext self right of
        Inl e \<Rightarrow> Inl (Builtin e)
      | Inr r_type \<Rightarrow>
         (let actual_types = format_types (type_identifier l_type) (type_identifier r_type)
          in case BinaryOp_validate_type ext oper l_type r_type of
               Some operation \<Rightarrow> Inr operation
             | None \<Rightarrow>
                 (case BinaryOp_get_operation_by_operator ext oper of
                    None \<Rightarrow> Inl (Builtin AttributeError)
                  | Some expected_op \<Rightarrow>
                      (let expected_types = format_types (type_identifier (left_type expected_op))
                                                         (type_identifier (right_type expected_op))
                       in Inl (Compiler (MismatchedTypes 0 0 expected_types actual_types True)))))))"

definition get_un_op ::
  "externals \<Rightarrow> TypeAnalyser \<Rightarrow> operator \<Rightarrow> pyval \<Rightarrow> pyexn + UnaryOperation" where
  "get_un_op ext self oper operand =
     (case get_type ext self operand of
        Inl e \<Rightarrow> Inl (Builtin e)
      | Inr op_type \<Rightarrow>
         (let actual_type = type_identifier op_type
          in case UnaryOp_validate_type ext oper op_type of
               Some operation \<Rightarrow> Inr operation
             | None \<Rightarrow>
                 (case UnaryOp_get_operation_by_operator ext oper of
                    None \<Rightarrow> Inl (Builtin AttributeError)
                  | Some expected_op \<Rightarrow>
                      (let expected_type = type_identifier (operand_type expected_op)
                       in Inl (Compiler (MismatchedTypes 0 0 expected_type actual_type True))))))"

text \<open>
  The handler \<open>except CompilerError.MismatchedTypes as raised_error\<close> with the current
  line and column: it logs the error again under these coordinates; reading \<open>args[2]\<close>
  of an error built with keyword arguments raises \<open>IndexError\<close>. Any other exception
  passes.
\<close>

definition except_MismatchedTypes ::
  "int \<Rightarrow> int \<Rightarrow> TypeAnalyser \<Rightarrow> pyexn \<Rightarrow> TypeAnalyser \<times> (pyexn + 'a)" where
  "except_MismatchedTypes line col self raised_error =
     (case raised_error of
        Compiler (MismatchedTypes _ _ expected_types actual_types positional) \<Rightarrow>
          (if positional then log_error self (MismatchedTypes line col expected_types actual_types True)
           else (self, Inl (Builtin IndexError)))
      | _ \<Rightarrow> (self, Inl raised_error))"

text \<open>The value of an expression whose type is \<open>t\<close>.\<close>

abbreviation py_type :: "itype \<Rightarrow> pyval" where
  "py_type t \<equiv> py_symbol (sym_Type t)"

text \<open>\<open>visit_Num\<close>.\<close>

fun isinstance_int :: "num_value \<Rightarrow> bool" where
  "isinstance_int (n_int _) = True"
| "isinstance_int _ = False"

fun num_type_name :: "num_value \<Rightarrow> string" where
  "num_type_name (n_int _) = ''int''"
| "num_type_name (n_float _) = ''float''"
| "num_type_name (n_complex _) = ''complex''"

fun num_pyval :: "num_value \<Rightarrow> pyval" where
  "num_pyval (n_int i) = py_int i"
| "num_pyval (n_float f) = py_float f"
| "num_pyval (n_complex c) = py_complex c"

definition visit_Num :: "int \<Rightarrow> int \<Rightarrow> num_value \<Rightarrow> TypeAnalyser \<Rightarrow> TypeAnalyser \<times> (pyexn + pyval)" where
  "visit_Num lineno col n self =
     (if \<not> isinstance_int n then log_error self (InvalidType lineno col (num_type_name n))
      else (self, Inr (num_pyval n)))"

fun constant_pyval :: "constant_value \<Rightarrow> pyval" where
  "constant_pyval c_True = py_bool True"
| "constant_pyval c_False = py_bool False"
| "constant_pyval c_None = py_None"

text \<open>
  \<open>visit_While\<close> and \<open>validate_if\<close> after the test has been visited: the type of the test
  must be \<open>Type.bool\<close>.
\<close>

definition check_test :: "externals \<Rightarrow> int \<Rightarrow> int \<Rightarrow> pyval \<Rightarrow> TypeAnalyser \<Rightarrow> TypeAnalyser \<times> (pyexn + unit)" where
  "check_test ext lineno col test self =
     (case get_type ext self test of
        Inl e \<Rightarrow> (self, Inl (Builtin e))
      | Inr test_type \<Rightarrow>
          (if test_type \<noteq> Type_bool
           then log_error self (MismatchedTypes lineno col (type_identifier Type_bool)
                                  (type_identifier test_type) False)
           else (self, Inr ())))"

text \<open>\<open>visit_Subscript\<close> after both children have been visited.\<close>

fun resolve_Name :: "TypeAnalyser \<Rightarrow> pyval \<Rightarrow> builtin_error + pyval" where
  "resolve_Name self (py_Name _ _ ident) =
     (case get_symbol self ident of Inl e \<Rightarrow> Inl e | Inr s \<Rightarrow> Inr (of_optional s))"
| "resolve_Name self v = Inr v"

fun isinstance_IType :: "pyval \<Rightarrow> bool" where
  "isinstance_IType (py_symbol (sym_Type _)) = True"
| "isinstance_IType _ = False"

definition Subscript_check ::
  "externals \<Rightarrow> int \<Rightarrow> int \<Rightarrow> pyval \<Rightarrow> pyval \<Rightarrow> TypeAnalyser \<Rightarrow> TypeAnalyser \<times> (pyexn + pyval)" where
  "Subscript_check ext lineno col value0 index0 self =
     (case resolve_Name self value0 of
        Inl e \<Rightarrow> (self, Inl (Builtin e))
      | Inr val \<Rightarrow>
     (case resolve_Name self index0 of
        Inl e \<Rightarrow> (self, Inl (Builtin e))
      | Inr index \<Rightarrow>
         (if isinstance_IType val \<and> isinstance_IType index then (self, Inr val)
          else
            (case get_type ext self val of
               Inl e \<Rightarrow> (self, Inl (Builtin e))
             | Inr symbol_type \<Rightarrow>
            (case get_type ext self index of
               Inl e \<Rightarrow> (self, Inl (Builtin e))
             | Inr index_type \<Rightarrow>
                 (case symbol_type of
                    SequenceType name value_type valid_key \<Rightarrow>
                      (if \<not> is_valid_key symbol_type index_type
                       then log_error self (MismatchedTypes lineno col (type_identifier valid_key)
                                              (type_identifier index_type) False)
                       else (self, Inr (py_type value_type)))
                  | _ \<Rightarrow>
                      log_error self (UnresolvedOperation lineno col (type_identifier symbol_type)
                                        Operator_Subscript)))))))"

text \<open>
  \<open>visit_BinOp\<close> after both operands have been visited: the result is the new content
  of the operator slot, the state and the outcome.
\<close>

definition BinOp_check ::
  "externals \<Rightarrow> int \<Rightarrow> int \<Rightarrow> slot \<Rightarrow> pyval \<Rightarrow> pyval \<Rightarrow> TypeAnalyser
     \<Rightarrow> slot \<times> TypeAnalyser \<times> (pyexn + pyval)" where
  "BinOp_check ext lineno col op r_operand l_operand self =
     (case get_operator op of
        None \<Rightarrow>
          (let (s, r) = log_error self (UnresolvedReference lineno col (type_name op)) in (op, s, r))
      | Some oper \<Rightarrow>
          (case get_bin_op ext self oper r_operand l_operand of
             Inl raised_error \<Rightarrow>
               (let (s, r) = except_MismatchedTypes lineno col self raised_error in (op, s, r))
           | Inr operation \<Rightarrow>
               (if \<not> is_supported operation
                then (let (s, r) = log_error self (NotSupportedOperation lineno col (ns_operator oper))
                      in (op, s, r))
                else (slot_BinaryOperation operation, self, Inr (py_type (result operation))))))"

definition UnaryOp_check ::
  "externals \<Rightarrow> int \<Rightarrow> int \<Rightarrow> slot \<Rightarrow> pyval \<Rightarrow> TypeAnalyser
     \<Rightarrow> slot \<times> TypeAnalyser \<times> (pyexn + pyval)" where
  "UnaryOp_check ext lineno col op operand self =
     (case get_operator op of
        None \<Rightarrow>
          (let (s, r) = log_error self (UnresolvedReference lineno col (type_name op)) in (op, s, r))
      | Some oper \<Rightarrow>
          (case get_un_op ext self oper operand of
             Inl raised_error \<Rightarrow>
               (let (s, r) = except_MismatchedTypes lineno col self raised_error in (op, s, r))
           | Inr operation \<Rightarrow>
               (if \<not> un_is_supported operation
                then (let (s, r) = log_error self (NotSupportedOperation lineno col (ns_operator oper))
                      in (op, s, r))
                else (slot_UnaryOperation operation, self, Inr (py_type (un_result operation))))))"

text \<open>A loop \<open>for x in xs: self.visit(x)\<close>: it stops at the first exception.\<close>

fun visit_each ::
  "('a \<Rightarrow> TypeAnalyser \<Rightarrow> 'a \<times> TypeAnalyser \<times> (pyexn + 'b)) \<Rightarrow> 'a list \<Rightarrow> TypeAnalyser
     \<Rightarrow> 'a list \<times> TypeAnalyser \<times> (pyexn + unit)" where
  "visit_each f [] self = ([], self, Inr ())"
| "visit_each f (x # xs) self =
     (case f x self of
        (x', s1, Inl e) \<Rightarrow> (x' # xs, s1, Inl e)
      | (x', s1, Inr _) \<Rightarrow>
          (case visit_each f xs s1 of (xs', s2, r) \<Rightarrow> (x' # xs', s2, r)))"

lemma visit_each_cong [fundef_cong]:
  "xs = ys \<Longrightarrow> s = t \<Longrightarrow> (\<And>x u. x \<in> set ys \<Longrightarrow> f x u = g x u)
     \<Longrightarrow> visit_each f xs s = visit_each g ys t"
proof (induction ys arbitrary: xs s t)
  case Nil
  then show ?case by simp
next
  case (Cons y ys)
  then show ?case by (auto split: prod.splits sum.splits)
qed

text \<open>The value that a visitor without \<open>return\<close> yields.\<close>

fun returns_None :: "pyexn + 'a \<Rightarrow> pyexn + pyval" where
  "returns_None (Inl e) = Inl e"
| "returns_None (Inr _) = Inr py_None"

text \<open>
  The visitors of the expression nodes. Each equation of \<open>visit\<close> is the method
  \<open>visit_<class>\<close> of the class of the node; \<open>Slice\<close> and \<open>OtherExpr\<close> have no such
  method and fall to \<open>generic_visit\<close>, which visits the children in order. The result
  is the node with its operator slots as the visit left them, the state, and the
  outcome: the value returned, or the exception raised. \<open>Compare_loop\<close> is the loop of
  \<open>visit_Compare\<close> over the pairs of operator and comparator, \<open>BoolOp_loop\<close> the loop of
  \<open>visit_BoolOp\<close> over the operands after the first; they also yield the line and the
  column that are current when the loop ends, for the handler around it. In both loops
  \<open>get_bin_op\<close> never returns \<open>None\<close>, so the branch \<open>operation is None\<close> is not modelled.
\<close>

fun visit ::
  "externals \<Rightarrow> expr \<Rightarrow> TypeAnalyser \<Rightarrow> expr \<times> TypeAnalyser \<times> (pyexn + pyval)"
and Compare_loop ::
  "externals \<Rightarrow> slot list \<Rightarrow> expr list \<Rightarrow> pyval \<Rightarrow> int \<Rightarrow> int \<Rightarrow> itype option \<Rightarrow> TypeAnalyser
     \<Rightarrow> slot list \<times> expr list \<times> TypeAnalyser \<times> int \<times> int \<times> (pyexn + itype option)"
and BoolOp_loop ::
  "externals \<Rightarrow> operator \<Rightarrow> expr list \<Rightarrow> pyval \<Rightarrow> int \<Rightarrow> int \<Rightarrow> BinaryOperation option
     \<Rightarrow> itype option \<Rightarrow> TypeAnalyser
     \<Rightarrow> expr list \<times> TypeAnalyser \<times> int \<times> int \<times> (pyexn + BinaryOperation option \<times> itype option)"
where
  "visit ext (Num lineno col n) self =
     (let (s, r) = visit_Num lineno col n self in (Num lineno col n, s, r))"
| "visit ext (Str lineno col str) self = (Str lineno col str, self, Inr (py_str str))"
| "visit ext (Tuple lineno col elts) self = (Tuple lineno col elts, self, Inr (py_tuple elts))"
| "visit ext (NameConstant lineno col c) self =
     (NameConstant lineno col c, self, Inr (constant_pyval c))"
| "visit ext (Name lineno col ident) self =
     (Name lineno col ident, self, Inr (py_Name lineno col ident))"
| "visit ext (Index v) self =
     (case visit ext v self of (v', s, r) \<Rightarrow> (Index v', s, r))"
| "visit ext (Slice children) self =
     (case visit_each (visit ext) children self of
        (children', s, r) \<Rightarrow> (Slice children', s, returns_None r))"
| "visit ext (OtherExpr lineno col children) self =
     (case visit_each (visit ext) children self of
        (children', s, r) \<Rightarrow> (OtherExpr lineno col children', s, returns_None r))"
| "visit ext (IfExp lineno col test body orelse) self =
     (case visit ext test self of
        (test', s1, Inl e) \<Rightarrow> (IfExp lineno col test' body orelse, s1, Inl e)
      | (test', s1, Inr t) \<Rightarrow>
          (let (s2, r) = check_test ext lineno col t s1
           in (IfExp lineno col test' body orelse, s2, returns_None r)))"
| "visit ext (Subscript lineno col v slc) self =
     (case visit ext v self of
        (v', s1, Inl e) \<Rightarrow> (Subscript lineno col v' slc, s1, Inl e)
      | (v', s1, Inr val) \<Rightarrow>
          (case visit ext slc s1 of
             (slc', s2, Inl e) \<Rightarrow> (Subscript lineno col v' slc', s2, Inl e)
           | (slc', s2, Inr index) \<Rightarrow>
               (let (s3, r) = Subscript_check ext lineno col val index s2
                in (Subscript lineno col v' slc', s3, r))))"
| "visit ext (BinOp lineno col op left right) self =
     (case visit ext right self of
        (right', s1, Inl e) \<Rightarrow> (BinOp lineno col op left right', s1, Inl e)
      | (right', s1, Inr r_operand) \<Rightarrow>
          (case visit ext left s1 of
             (left', s2, Inl e) \<Rightarrow> (BinOp lineno col op left' right', s2, Inl e)
           | (left', s2, Inr l_operand) \<Rightarrow>
               (let (op', s3, r) = BinOp_check ext lineno col op r_operand l_operand s2
                in (BinOp lineno col op' left' right', s3, r))))"
| "visit ext (UnaryOp lineno col op operand) self =
     (case visit ext operand self of
        (operand', s1, Inl e) \<Rightarrow> (UnaryOp lineno col op operand', s1, Inl e)
      | (operand', s1, Inr v) \<Rightarrow>
          (let (op', s2, r) = UnaryOp_check ext lineno col op v s1
           in (UnaryOp lineno col op' operand', s2, r)))"
| "visit ext (Compare lineno col left ops comparators) self =
     (if length comparators \<noteq> length ops
      then (let (s, r) = log_error self (IncorrectNumberOfOperands lineno col (int (length ops))
                                          (int (length comparators) + 1))
            in (Compare lineno col left ops comparators, s, r))
      else
        (case visit ext left self of
           (left', s1, Inl e) \<Rightarrow>
             (let (s2, r) = except_MismatchedTypes lineno col s1 e
              in (Compare lineno col left' ops comparators, s2, r))
         | (left', s1, Inr l_operand) \<Rightarrow>
             (case Compare_loop ext ops comparators l_operand lineno col None s1 of
                (ops', comparators', s2, line', col', Inl e) \<Rightarrow>
                  (let (s3, r) = except_MismatchedTypes line' col' s2 e
                   in (Compare lineno col left' ops' comparators', s3, r))
              | (ops', comparators', s2, line', col', Inr return_type) \<Rightarrow>
                  (Compare lineno col left' ops' comparators', s2,
                   Inr (case return_type of None \<Rightarrow> py_None | Some t \<Rightarrow> py_type t)))))"
| "visit ext (BoolOp lineno col op vals) self =
     (case get_operator op of
        None \<Rightarrow>
          (let (s, r) = log_error self (UnresolvedReference lineno col ''NoneType'')
           in (BoolOp lineno col op vals, s, r))
      | Some oper \<Rightarrow>
          (case vals of
             [] \<Rightarrow> (BoolOp lineno col op vals, self, Inl (Builtin IndexError))
           | v0 # rest \<Rightarrow>
               (case visit ext v0 self of
                  (v0', s1, Inl e) \<Rightarrow>
                    (let (s2, r) = except_MismatchedTypes lineno col s1 e
                     in (BoolOp lineno col op (v0' # rest), s2, r))
                | (v0', s1, Inr l_operand) \<Rightarrow>
                    (case BoolOp_loop ext oper rest l_operand lineno col None None s1 of
                       (rest', s2, line', col', Inl e) \<Rightarrow>
                         (let (s3, r) = except_MismatchedTypes line' col' s2 e
                          in (BoolOp lineno col op (v0' # rest'), s3, r))
                     | (rest', s2, line', col', Inr (bool_operation, return_type)) \<Rightarrow>
                         (BoolOp lineno col
                            (case bool_operation of None \<Rightarrow> slot_None
                             | Some operation \<Rightarrow> slot_BinaryOperation operation)
                            (v0' # rest'), s2,
                          Inr (case return_type of None \<Rightarrow> py_None | Some t \<Rightarrow> py_type t))))))"
| "Compare_loop ext [] comparators l_operand line col return_type self =
     ([], comparators, self, line, col, Inr return_type)"
| "Compare_loop ext (op # ops) [] l_operand line col return_type self =
     (op # ops, [], self, line, col, Inl (Builtin IndexError))"
| "Compare_loop ext (op # ops) (c # cs) l_operand line col return_type self =
     (case visit ext c self of
        (c', s1, Inl e) \<Rightarrow> (op # ops, c' # cs, s1, line, col, Inl e)
      | (c', s1, Inr r_operand) \<Rightarrow>
          (case get_operator op of
             None \<Rightarrow>
               (let (s2, r) = log_error s1 (UnresolvedReference line col (type_name op))
                in (op # ops, c' # cs, s2, line, col, r))
           | Some oper \<Rightarrow>
               (case get_bin_op ext s1 oper r_operand l_operand of
                  Inl e \<Rightarrow> (op # ops, c' # cs, s1, line, col, Inl e)
                | Inr operation \<Rightarrow>
                    (if \<not> is_supported operation
                     then (let (s2, r) = log_error s1 (NotSupportedOperation line col (ns_operator oper))
                           in (op # ops, c' # cs, s2, line, col, r))
                     else
                       (case position c' of
                          None \<Rightarrow>
                            (slot_BinaryOperation operation # ops, c' # cs, s1, line, col,
                             Inl (Builtin AttributeError))
                        | Some (line', col') \<Rightarrow>
                            (case Compare_loop ext ops cs r_operand line' col'
                                    (Some (result operation)) s1 of
                               (ops', cs', s2, line2, col2, r) \<Rightarrow>
                                 (slot_BinaryOperation operation # ops', c' # cs', s2, line2, col2, r)))))))"
| "BoolOp_loop ext oper [] l_operand lineno col bool_operation return_type self =
     ([], self, lineno, col, Inr (bool_operation, return_type))"
| "BoolOp_loop ext oper (operand # rest) l_operand lineno col bool_operation return_type self =
     (case visit ext operand self of
        (operand', s1, Inl e) \<Rightarrow> (operand' # rest, s1, lineno, col, Inl e)
      | (operand', s1, Inr r_operand) \<Rightarrow>
          (case get_bin_op ext s1 oper r_operand l_operand of
             Inl e \<Rightarrow> (operand' # rest, s1, lineno, col, Inl e)
           | Inr operation \<Rightarrow>
               (let (bool_operation', return_type') =
                      (if bool_operation = None then (Some operation, Some (result operation))
                       else (bool_operation, return_type))
                in case position operand' of
                     None \<Rightarrow> (operand' # rest, s1, lineno, col, Inl (Builtin AttributeError))
                   | Some (lineno', col') \<Rightarrow>
                       (case BoolOp_loop ext oper rest r_operand lineno' col' bool_operation'
                               return_type' s1 of
                          (rest', s2, line2, col2, r) \<Rightarrow> (operand' # rest', s2, line2, col2, r)))))"

text \<open>The outcome of a visit whose value is not used.\<close>

fun discard :: "pyexn + 'a \<Rightarrow> pyexn + unit" where
  "discard (Inl e) = Inl e"
| "discard (Inr _) = Inr ()"

text \<open>The visit of an optional child: \<open>generic_visit\<close> skips a field that is \<open>None\<close>.\<close>

fun visit_opt ::
  "('a \<Rightarrow> TypeAnalyser \<Rightarrow> 'a \<times> TypeAnalyser \<times> (pyexn + 'b)) \<Rightarrow> 'a option \<Rightarrow> TypeAnalyser
     \<Rightarrow> 'a option \<times> TypeAnalyser \<times> (pyexn + unit)" where
  "visit_opt f None self = (None, self, Inr ())"
| "visit_opt f (Some x) self = (case f x self of (x', s, r) \<Rightarrow> (Some x', s, discard r))"

text \<open>\<open>visit_arg\<close>, then \<open>generic_visit(arg)\<close>, which visits the annotation.\<close>

fun visit_arg :: "externals \<Rightarrow> arg \<Rightarrow> TypeAnalyser \<Rightarrow> arg \<times> TypeAnalyser \<times> (pyexn + unit)" where
  "visit_arg ext (arg lineno col name None) self =
     (let (s, r) = log_error self (TypeHintMissing lineno col (Some name))
      in (arg lineno col name None, s, r))"
| "visit_arg ext (arg lineno col name (Some annotation)) self =
     (case visit ext annotation self of
        (annotation', s, r) \<Rightarrow> (arg lineno col name (Some annotation'), s, discard r))"

text \<open>
  \<open>visit_arguments\<close>: each of \<open>arguments.args\<close> is visited, then \<open>generic_visit\<close> visits
  every field in order, \<open>args\<close> among them again.
\<close>

fun visit_arguments ::
  "externals \<Rightarrow> arguments \<Rightarrow> TypeAnalyser \<Rightarrow> arguments \<times> TypeAnalyser \<times> (pyexn + unit)" where
  "visit_arguments ext (arguments args vararg kwonlyargs kw_defaults kwarg defaults) self =
     (case visit_each (visit_arg ext) args self of
        (args1, s1, Inl e) \<Rightarrow> (arguments args1 vararg kwonlyargs kw_defaults kwarg defaults, s1, Inl e)
      | (args1, s1, Inr _) \<Rightarrow>
     (case visit_each (visit_arg ext) args1 s1 of
        (args2, s2, Inl e) \<Rightarrow> (arguments args2 vararg kwonlyargs kw_defaults kwarg defaults, s2, Inl e)
      | (args2, s2, Inr _) \<Rightarrow>
     (case visit_opt (visit_arg ext) vararg s2 of
        (vararg', s3, Inl e) \<Rightarrow> (arguments args2 vararg' kwonlyargs kw_defaults kwarg defaults, s3, Inl e)
      | (vararg', s3, Inr _) \<Rightarrow>
     (case visit_each (visit_arg ext) kwonlyargs s3 of
        (kwonlyargs', s4, Inl e) \<Rightarrow>
          (arguments args2 vararg' kwonlyargs' kw_defaults kwarg defaults, s4, Inl e)
      | (kwonlyargs', s4, Inr _) \<Rightarrow>
     (case visit_each (visit ext) kw_defaults s4 of
        (kw_defaults', s5, Inl e) \<Rightarrow>
          (arguments args2 vararg' kwonlyargs' kw_defaults' kwarg defaults, s5, Inl e)
      | (kw_defaults', s5, Inr _) \<Rightarrow>
     (case visit_opt (visit_arg ext) kwarg s5 of
        (kwarg', s6, Inl e) \<Rightarrow>
          (arguments args2 vararg' kwonlyargs' kw_defaults' kwarg' defaults, s6, Inl e)
      | (kwarg', s6, Inr _) \<Rightarrow>
     (case visit_each (visit ext) defaults s6 of
        (defaults', s7, r) \<Rightarrow>
          (arguments args2 vararg' kwonlyargs' kw_defaults' kwarg' defaults', s7, r))))))))"

fun isinstance_Tuple :: "expr \<Rightarrow> bool" where
  "isinstance_Tuple (Tuple _ _ _) = True"
| "isinstance_Tuple _ = False"

text \<open>\<open>self.__current_method.return_type\<close>; \<open>None\<close> stands for the \<open>AttributeError\<close>.\<close>

definition current_return_type :: "TypeAnalyser \<Rightarrow> itype option" where
  "current_return_type self =
     (case current_method self of None \<Rightarrow> None | Some m \<Rightarrow> return_type_attr m)"

text \<open>\<open>visit_Return\<close> up to the call of \<open>generic_visit\<close>.\<close>

definition Return_check ::
  "int \<Rightarrow> int \<Rightarrow> expr option \<Rightarrow> TypeAnalyser \<Rightarrow> TypeAnalyser \<times> (pyexn + unit)" where
  "Return_check lineno col v self =
     (case v of
        Some val \<Rightarrow>
          (if isinstance_Tuple val then log_error self (TooManyReturns lineno col)
           else
             (case current_return_type self of
                None \<Rightarrow> (self, Inl (Builtin AttributeError))
              | Some return_type \<Rightarrow>
                  (if return_type = Type_none
                   then log_error self (TypeHintMissing lineno col (current_method_id self))
                   else (self, Inr ()))))
      | None \<Rightarrow>
          (case current_return_type self of
             None \<Rightarrow> (self, Inl (Builtin AttributeError))
           | Some return_type \<Rightarrow>
               (if return_type \<noteq> Type_none
                then log_error self (MismatchedTypes lineno col (type_identifier return_type)
                                       (type_identifier Type_none) False)
                else (self, Inr ()))))"

text \<open>\<open>visit_Assign\<close> up to the call of \<open>generic_visit\<close>.\<close>

definition Assign_check ::
  "int \<Rightarrow> int \<Rightarrow> expr list \<Rightarrow> TypeAnalyser \<Rightarrow> TypeAnalyser \<times> (pyexn + unit)" where
  "Assign_check lineno col targets self =
     (if length targets > 1
      then log_error self (NotSupportedOperation lineno col (ns_text ''Multiple variable assignments''))
      else
        (case targets of
           [] \<Rightarrow> (self, Inl (Builtin IndexError))
         | t # _ \<Rightarrow>
             (if isinstance_Tuple t
              then log_error self (NotSupportedOperation lineno col
                                     (ns_text ''Multiple variable assignments''))
              else (self, Inr ()))))"

fun isinstance_If :: "stmt \<Rightarrow> bool" where
  "isinstance_If (If _ _ _ _ _) = True"
| "isinstance_If _ = False"

text \<open>
  The visitors of the statement nodes: \<open>visit_FunctionDef\<close>, \<open>visit_Return\<close>,
  \<open>visit_Assign\<close>, \<open>visit_While\<close>, \<open>visit_If\<close>, \<open>visit_Break\<close>, \<open>visit_Continue\<close>, and
  \<open>generic_visit\<close> for a statement of any other class. No equation catches an exception.
\<close>

fun visit_stmt ::
  "externals \<Rightarrow> stmt \<Rightarrow> TypeAnalyser \<Rightarrow> stmt \<times> TypeAnalyser \<times> (pyexn + unit)" where
  "visit_stmt ext (FunctionDef lineno col name args body) self =
     (case visit_arguments ext args self of
        (args', s1, Inl e) \<Rightarrow> (FunctionDef lineno col name args' body, s1, Inl e)
      | (args', s1, Inr _) \<Rightarrow>
          (case map_of (symbols s1) name of
             None \<Rightarrow> (FunctionDef lineno col name args' body, s1, Inl (Builtin KeyError))
           | Some method \<Rightarrow>
               (case visit_each (visit_stmt ext) body (s1\<lparr>current_method := Some method\<rparr>) of
                  (body', s2, Inl e) \<Rightarrow> (FunctionDef lineno col name args' body', s2, Inl e)
                | (body', s2, Inr _) \<Rightarrow>
                    (FunctionDef lineno col name args' body', s2\<lparr>current_method := None\<rparr>, Inr ()))))"
| "visit_stmt ext (Return lineno col v) self =
     (case Return_check lineno col v self of
        (s1, Inl e) \<Rightarrow> (Return lineno col v, s1, Inl e)
      | (s1, Inr _) \<Rightarrow>
          (case visit_opt (visit ext) v s1 of (v', s2, r) \<Rightarrow> (Return lineno col v', s2, r)))"
| "visit_stmt ext (Assign lineno col targets v) self =
     (case Assign_check lineno col targets self of
        (s1, Inl e) \<Rightarrow> (Assign lineno col targets v, s1, Inl e)
      | (s1, Inr _) \<Rightarrow>
          (case visit_each (visit ext) targets s1 of
             (targets', s2, Inl e) \<Rightarrow> (Assign lineno col targets' v, s2, Inl e)
           | (targets', s2, Inr _) \<Rightarrow>
               (case visit ext v s2 of (v', s3, r) \<Rightarrow> (Assign lineno col targets' v', s3, discard r))))"
| "visit_stmt ext (While lineno col test body orelse) self =
     (case visit ext test self of
        (test', s1, Inl e) \<Rightarrow> (While lineno col test' body orelse, s1, Inl e)
      | (test', s1, Inr t) \<Rightarrow>
          (case check_test ext lineno col t s1 of
             (s2, Inl e) \<Rightarrow> (While lineno col test' body orelse, s2, Inl e)
           | (s2, Inr _) \<Rightarrow>
               (case visit_each (visit_stmt ext) body s2 of
                  (body', s3, Inl e) \<Rightarrow> (While lineno col test' body' orelse, s3, Inl e)
                | (body', s3, Inr _) \<Rightarrow>
                    (case visit_each (visit_stmt ext) orelse s3 of
                       (orelse', s4, r) \<Rightarrow> (While lineno col test' body' orelse', s4, r)))))"
| "visit_stmt ext (If lineno col test body orelse) self =
     (case visit ext test self of
        (test', s1, Inl e) \<Rightarrow> (If lineno col test' body orelse, s1, Inl e)
      | (test', s1, Inr t) \<Rightarrow>
          (case check_test ext lineno col t s1 of
             (s2, Inl e) \<Rightarrow> (If lineno col test' body orelse, s2, Inl e)
           | (s2, Inr _) \<Rightarrow>
               (case visit_each (visit_stmt ext) body s2 of
                  (body', s3, Inl e) \<Rightarrow> (If lineno col test' body' orelse, s3, Inl e)
                | (body', s3, Inr _) \<Rightarrow>
                    (if length orelse = 1 \<and> isinstance_If (hd orelse)
                     then (If lineno col test' body' orelse, s3, Inl (Builtin NotImplementedError))
                     else
                       (case visit_each (visit_stmt ext) orelse s3 of
                          (orelse', s4, r) \<Rightarrow> (If lineno col test' body' orelse', s4, r))))))"
| "visit_stmt ext Break self = (Break, self, Inl (Builtin NotImplementedError))"
| "visit_stmt ext Continue self = (Continue, self, Inl (Builtin NotImplementedError))"
| "visit_stmt ext (OtherStmt children) self =
     (case visit_each
             (\<lambda>c s. case c of
                      Inl e \<Rightarrow> (case visit ext e s of (e', s', r) \<Rightarrow> (Inl e', s', discard r))
                    | Inr st \<Rightarrow> (case visit_stmt ext st s of (st', s', r) \<Rightarrow> (Inr st', s', r)))
             children self of
        (children', s1, r) \<Rightarrow> (OtherStmt children', s1, r))"

fun visit_Module :: "externals \<Rightarrow> module \<Rightarrow> TypeAnalyser \<Rightarrow> module \<times> TypeAnalyser \<times> (pyexn + unit)" where
  "visit_Module ext (Module body) self =
     (case visit_each (visit_stmt ext) body self of (body', s, r) \<Rightarrow> (Module body', s, r))"

text \<open>\<open>TypeAnalyser.__init__\<close>: the initial state, then the visit of the tree.\<close>

definition TypeAnalyser_init ::
  "externals \<Rightarrow> module \<Rightarrow> (string \<times> symbol) list \<Rightarrow> module \<times> TypeAnalyser \<times> (pyexn + unit)" where
  "TypeAnalyser_init ext ast_tree symbol_table =
     visit_Module ext ast_tree
       \<lparr> errors = [], modules = [], symbols = symbol_table, current_method = None \<rparr>"

section \<open>An instance of the parameters, for evaluation\<close>

text \<open>
  Modelled from the spec: the registries \<open>BinaryOp\<close> and \<open>UnaryOp\<close> are missing.
  \<open>validate_type(op, l, r)\<close> iterates the operations registered under \<open>op\<close> and returns
  the first whose \<open>validate_type(l, r)\<close> holds, otherwise none;
  \<open>get_operation_by_operator(op)\<close> returns the first-registered operation of \<open>op\<close>.
  A registry is the list of its operations, each with its \<open>validate_type\<close>.
\<close>

definition registry_validate_type ::
  "(BinaryOperation \<times> (itype list \<Rightarrow> bool)) list \<Rightarrow> operator \<Rightarrow> itype \<Rightarrow> itype
     \<Rightarrow> BinaryOperation option" where
  "registry_validate_type registry oper l r =
     map_option fst (find (\<lambda>entry. operator (fst entry) = oper \<and> snd entry [l, r]) registry)"

definition registry_get_operation_by_operator ::
  "(BinaryOperation \<times> (itype list \<Rightarrow> bool)) list \<Rightarrow> operator \<Rightarrow> BinaryOperation option" where
  "registry_get_operation_by_operator registry oper =
     map_option fst (find (\<lambda>entry. operator (fst entry) = oper) registry)"

definition unary_validate_type ::
  "(UnaryOperation \<times> (itype list \<Rightarrow> bool)) list \<Rightarrow> operator \<Rightarrow> itype \<Rightarrow> UnaryOperation option" where
  "unary_validate_type registry oper t =
     map_option fst (find (\<lambda>entry. un_operator (fst entry) = oper \<and> snd entry [t]) registry)"

definition unary_get_operation_by_operator ::
  "(UnaryOperation \<times> (itype list \<Rightarrow> bool)) list \<Rightarrow> operator \<Rightarrow> UnaryOperation option" where
  "unary_get_operation_by_operator registry oper =
     map_option fst (find (\<lambda>entry. un_operator (fst entry) = oper) registry)"

text \<open>
  Modelled from the spec: the operations other than \<open>Concat\<close> are missing. The example
  registry holds the integer addition of the spec's first scenario, \<open>Concat\<close>, a
  conjunction of booleans, a comparison of integers, and the negation of a boolean.
\<close>

definition Addition :: BinaryOperation where
  "Addition = \<lparr> class_name = ''Addition'', operator = Operator_Plus, left_type = Type_int,
                 right_type = Type_int, result = Type_int, is_supported = True \<rparr>"

definition BooleanAnd :: BinaryOperation where
  "BooleanAnd = \<lparr> class_name = ''BooleanAnd'', operator = Operator_And, left_type = Type_bool,
                   right_type = Type_bool, result = Type_bool, is_supported = True \<rparr>"

definition LessThan :: BinaryOperation where
  "LessThan = \<lparr> class_name = ''LessThan'', operator = Operator_Lt, left_type = Type_int,
                 right_type = Type_int, result = Type_bool, is_supported = True \<rparr>"

definition BooleanNot :: UnaryOperation where
  "BooleanNot = \<lparr> un_class_name = ''BooleanNot'', un_operator = Operator_Not,
                   operand_type = Type_bool, un_result = Type_bool, un_is_supported = True \<rparr>"

definition example_registry :: "(BinaryOperation \<times> (itype list \<Rightarrow> bool)) list" where
  "example_registry =
     [(Addition, \<lambda>types. types = [Type_int, Type_int]),
      (Concat, Concat_validate_type),
      (BooleanAnd, \<lambda>types. types = [Type_bool, Type_bool]),
      (LessThan, \<lambda>types. types = [Type_int, Type_int])]"

definition example_unary_registry :: "(UnaryOperation \<times> (itype list \<Rightarrow> bool)) list" where
  "example_unary_registry = [(BooleanNot, \<lambda>types. types = [Type_bool])]"

text \<open>
  Modelled from the spec: \<open>Type.get_type\<close> is missing; it returns the most specific
  built-in type whose \<open>is_type_of\<close> accepts the value, and \<open>none\<close> when none does.
\<close>

definition example_get_type :: "pyval \<Rightarrow> itype" where
  "example_get_type v =
     (case IntType_build v of
        Some t \<Rightarrow> t
      | None \<Rightarrow> (case v of py_bool _ \<Rightarrow> Type_bool | py_str _ \<Rightarrow> Type_str | _ \<Rightarrow> Type_none))"

definition example_externals :: externals where
  "example_externals =
     \<lparr> BinaryOp_validate_type = registry_validate_type example_registry,
       BinaryOp_get_operation_by_operator = registry_get_operation_by_operator example_registry,
       UnaryOp_validate_type = unary_validate_type example_unary_registry,
       UnaryOp_get_operation_by_operator = unary_get_operation_by_operator example_unary_registry,
       Type_get_type = example_get_type \<rparr>"

text \<open>A state in which the identifier \<open>x\<close> exists in all three scopes.\<close>

definition example_method :: symbol where
  "example_method = sym_Method 0 Type_int [(''x'', sym_Expression Type_int)]"

definition example_scopes :: TypeAnalyser where
  "example_scopes =
     \<lparr> errors = [],
       modules = [(''x'', sym_Module []), (''y'', sym_Module [])],
       symbols = [(''f'', example_method), (''x'', sym_Type Type_str), (''y'', sym_Type Type_bool),
                  (''z'', sym_Type Type_int)],
       current_method = Some example_method \<rparr>"

text \<open>The body of \<open>def f(s: str, t: str) -> str\<close>: the state while it is walked.\<close>

definition example_str_method :: symbol where
  "example_str_method =
     sym_Method 1 Type_str [(''s'', sym_Expression Type_str), (''t'', sym_Expression Type_str)]"

definition example_in_str_method :: TypeAnalyser where
  "example_in_str_method =
     \<lparr> errors = [], modules = [], symbols = [(''f'', example_str_method)],
       current_method = Some example_str_method \<rparr>"

text \<open>The state in which \<open>TypeAnalyser.__init__\<close> starts a walk without global symbols.\<close>

definition example_initial :: TypeAnalyser where
  "example_initial = \<lparr> errors = [], modules = [], symbols = [], current_method = None \<rparr>"

text \<open>
  Three expression statements: the literal \<open>1.5\<close> in line 1, the literal \<open>2j\<close> in line 2,
  the literal \<open>7\<close> in line 3; the module of the first two; the expression \<open>1.5 + 2j\<close>.
\<close>

definition example_bad_statement :: stmt where
  "example_bad_statement = OtherStmt [Inl (Num 1 0 (n_float ''1.5''))]"

definition example_later_statement :: stmt where
  "example_later_statement = OtherStmt [Inl (Num 2 0 (n_complex ''2j''))]"

definition example_good_statement :: stmt where
  "example_good_statement = OtherStmt [Inl (Num 3 0 (n_int 7))]"

definition example_two_errors :: module where
  "example_two_errors =
     Module [example_bad_statement, example_later_statement]"

definition example_two_operands :: expr where
  "example_two_operands =
     BinOp 1 0 (slot_ast ast_Add) (Num 1 0 (n_float ''1.5'')) (Num 1 6 (n_complex ''2j''))"

text \<open>The expressions \<open>1.5 < 2j\<close>, \<open>1.5 and 2j\<close> and \<open>1.5[2j]\<close>.\<close>

definition example_compare_operands :: expr where
  "example_compare_operands =
     Compare 1 0 (Num 1 0 (n_float ''1.5'')) [slot_ast ast_Lt] [Num 1 6 (n_complex ''2j'')]"

definition example_bool_operands :: expr where
  "example_bool_operands =
     BoolOp 1 0 (slot_ast ast_And) [Num 1 0 (n_float ''1.5''), Num 1 8 (n_complex ''2j'')]"

definition example_subscript_operands :: expr where
  "example_subscript_operands =
     Subscript 1 0 (Num 1 0 (n_float ''1.5'')) (Index (Num 1 4 (n_complex ''2j'')))"

text \<open>The expression \<open>True and False and True\<close>.\<close>

definition example_bool_chain :: expr where
  "example_bool_chain =
     BoolOp 1 0 (slot_ast ast_And)
       [NameConstant 1 0 c_True, NameConstant 1 9 c_False, NameConstant 1 19 c_True]"

text \<open>
  The module \<open>def f(a: int, b: int) -> int: return a + b\<close> with a given content of the
  operator slot of \<open>a + b\<close>, and its symbol table; the expression \<open>(1 + "a") < 2\<close>.
\<close>

definition example_add_symbols :: "(string \<times> symbol) list" where
  "example_add_symbols =
     [(''f'', sym_Method 2 Type_int [(''a'', sym_Expression Type_int), (''b'', sym_Expression Type_int)]),
      (''int'', sym_Type Type_int)]"

definition example_add_function :: "slot \<Rightarrow> module" where
  "example_add_function op =
     Module [FunctionDef 1 0 ''f''
               (arguments [arg 1 6 ''a'' (Some (Name 1 9 ''int'')), arg 1 14 ''b'' (Some (Name 1 17 ''int''))]
                  None [] [] None [])
               [Return 1 30 (Some (BinOp 1 37 op (Name 1 37 ''a'') (Name 1 41 ''b'')))]]"

definition example_nested_mismatch :: expr where
  "example_nested_mismatch =
     Compare 1 0 (BinOp 1 1 (slot_ast ast_Add) (Num 1 1 (n_int 1)) (Str 1 5 ''a''))
       [slot_ast ast_Lt] [Num 1 12 (n_int 2)]"

text \<open>A method without return annotation and the state while its body is walked;
  an empty argument list.\<close>

definition example_untyped_method :: symbol where
  "example_untyped_method = sym_Method 3 Type_none []"

definition example_in_untyped_method :: TypeAnalyser where
  "example_in_untyped_method =
     \<lparr> errors = [], modules = [], symbols = [(''g'', example_untyped_method)],
       current_method = Some example_untyped_method \<rparr>"

definition example_no_arguments :: arguments where
  "example_no_arguments = arguments [] None [] [] None []"

section \<open>What a visit may change\<close>

text \<open>
  \<open>only_logs s s' r\<close>: the state \<open>s'\<close> is \<open>s\<close> with errors appended, none of them when
  the outcome \<open>r\<close> is a normal return. \<open>stmt_logs\<close> is the same for statements, which may
  also change the current method.
\<close>

definition only_logs :: "TypeAnalyser \<Rightarrow> TypeAnalyser \<Rightarrow> pyexn + 'a \<Rightarrow> bool" where
  "only_logs s s' r =
     (\<exists>new. s' = s\<lparr>errors := errors s @ new\<rparr> \<and> (case r of Inl _ \<Rightarrow> True | Inr _ \<Rightarrow> new = []))"

definition stmt_logs :: "TypeAnalyser \<Rightarrow> TypeAnalyser \<Rightarrow> pyexn + 'a \<Rightarrow> bool" where
  "stmt_logs s s' r =
     (modules s' = modules s \<and> symbols s' = symbols s \<and> (\<exists>new. errors s' = errors s @ new)
      \<and> (case r of Inl _ \<Rightarrow> True | Inr _ \<Rightarrow> errors s' = errors s))"

section \<open>Properties\<close>

subsection \<open>Literal push opcodes\<close>

lemma le_bytes_small: "0 < n \<Longrightarrow> n < 256 \<Longrightarrow> le_bytes n = [word_of_nat n]"
  by (subst le_bytes.simps) (simp)

lemma Opcode_call_push:
  "Opcode_call [0x0F] = Inr (''PUSHM1'', [0x0F])"
  "Opcode_call [0x10] = Inr (''PUSH0'', [0x10])"
  "Opcode_call [0x20] = Inr (''PUSH16'', [0x20])"
  by (simp_all add: Opcode_call_def Opcode_members_def)

lemma Opcode_call_range:
  assumes "15 \<le> v" "v \<le> 32"
  shows "\<exists>nm. Opcode_call [word_of_int v] = Inr (nm, [word_of_int v])"
proof -
  have "v = 15 \<or> v = 16 \<or> v = 17 \<or> v = 18 \<or> v = 19 \<or> v = 20 \<or> v = 21 \<or> v = 22 \<or> v = 23
      \<or> v = 24 \<or> v = 25 \<or> v = 26 \<or> v = 27 \<or> v = 28 \<or> v = 29 \<or> v = 30 \<or> v = 31 \<or> v = 32"
    using assms by arith
  then show ?thesis
    by (elim disjE) (simp_all add: Opcode_call_def Opcode_members_def)
qed

text \<open>
  C10. For every integer \<open>n\<close> with \<open>-1 \<le> n \<le> 16\<close>, \<open>get_literal_push n\<close> returns the
  one-byte opcode whose byte is \<open>0x10 + n\<close> (\<open>PUSHM1\<close> for \<open>-1\<close>, \<open>PUSH0\<close> for \<open>0\<close>,
  \<open>PUSH16\<close> for \<open>16\<close>); outside that range it returns \<open>None\<close>. The conversions of
  \<open>Integer\<close> are assumed to read the byte \<open>0x10\<close> as 16 and to write a value between 1
  and 127 as the single byte of that value.
\<close>

theorem get_literal_push_spec:
  assumes fb: "from_bytes I [0x10] = 16"
      and tb: "\<forall>v. 0 < v \<and> v < 128 \<longrightarrow> to_byte_array I v = [word_of_int v]"
  shows "(-1 \<le> n \<and> n \<le> 16 \<longrightarrow>
            (\<exists>nm. get_literal_push I n = Inr (Some (nm, [word_of_int (0x10 + n)]))))
       \<and> (\<not> (-1 \<le> n \<and> n \<le> 16) \<longrightarrow> get_literal_push I n = Inr None)
       \<and> get_literal_push I (-1) = Inr (Some (''PUSHM1'', [0x0F]))
       \<and> get_literal_push I 0 = Inr (Some (''PUSH0'', [0x10]))
       \<and> get_literal_push I 16 = Inr (Some (''PUSH16'', [0x20]))"
proof -
  have in_range: "\<exists>nm. get_literal_push I n = Inr (Some (nm, [word_of_int (0x10 + n)]))"
    if "-1 \<le> n" "n \<le> 16"
  proof -
    have "to_byte_array I (16 + n) = [word_of_int (16 + n)]" using tb that by simp
    moreover have "\<exists>nm. Opcode_call [word_of_int (16 + n)] = Inr (nm, [word_of_int (16 + n)])"
      by (rule Opcode_call_range) (use that in arith)+
    ultimately show ?thesis
      using that fb by (auto simp: get_literal_push_def Opcode_PUSH0_def)
  qed
  have m1: "to_byte_array I 15 = [0x0F]" and z: "to_byte_array I 16 = [0x10]"
    and s: "to_byte_array I 32 = [0x20]"
    using tb by simp_all
  show ?thesis
    using in_range fb m1 z s
    by (simp add: get_literal_push_def Opcode_PUSH0_def Opcode_call_push)
qed

theorem get_literal_push_spec_witness:
  "get_literal_push Integer_le 5 = Inr (Some (''PUSH5'', [0x15]))
   \<and> get_literal_push Integer_le 17 = Inr None
   \<and> get_literal_push Integer_le (-1) = Inr (Some (''PUSHM1'', [0x0F]))"
proof -
  have fb: "from_bytes Integer_le [0x10] = 16" by (simp add: Integer_le_def)
  have tb: "\<forall>v. 0 < v \<and> v < 128 \<longrightarrow> to_byte_array Integer_le v = [word_of_int v]"
  proof (intro allI impI)
    fix v :: int
    assume v: "0 < v \<and> v < 128"
    then have "le_bytes (nat v) = [word_of_nat (nat v)]"
      by (intro le_bytes_small) arith+
    moreover have "(word_of_nat (nat v) :: byte) = word_of_int v"
      using v by simp
    ultimately show "to_byte_array Integer_le v = [word_of_int v]"
      by (simp add: Integer_le_def)
  qed
  have "Opcode_call [0x15] = Inr (''PUSH5'', [0x15])"
    by (simp add: Opcode_call_def Opcode_members_def)
  then show ?thesis
    using get_literal_push_spec [OF fb tb, of 5] get_literal_push_spec [OF fb tb, of 17]
    by (auto simp: get_literal_push_def Integer_le_def le_bytes_small Opcode_PUSH0_def)
qed

subsection \<open>The integer type\<close>

text \<open>
  C9. \<open>IntType.is_type_of(v)\<close> is true exactly when the type of \<open>v\<close> is exactly \<open>int\<close>;
  it is false for the booleans; \<open>IntType.build(v)\<close> returns the integer type
  when \<open>is_type_of(v)\<close> holds and \<open>None\<close> otherwise.
\<close>

theorem IntType_is_type_of_exact:
  "IntType_is_type_of v = (\<exists>i. v = py_int i)
   \<and> IntType_is_type_of (py_bool b) = False
   \<and> IntType_build v = (if \<exists>i. v = py_int i then Some Type_int else None)"
proof -
  have "IntType_is_type_of v = (\<exists>i. v = py_int i)"
    unfolding IntType_is_type_of_def
    by (cases v rule: type_of.cases) simp_all
  then show ?thesis
    by (simp add: IntType_build_def) (simp add: IntType_is_type_of_def)
qed

subsection \<open>Scope precedence of \<open>get_symbol\<close>\<close>

text \<open>
  C4. \<open>get_symbol\<close> searches the symbols of the current method, then the modules, then
  the globals, and returns the first hit: a local symbol wins over modules and globals,
  a module wins over a global, and an identifier in none of the three yields \<open>None\<close>.
  Without a current method the search starts at the modules.
\<close>

theorem get_symbol_precedence:
  "(current_method self = Some m \<and> symbols_attr m = Some locals \<and> map_of locals i = Some s
      \<longrightarrow> get_symbol self i = Inr (Some s))
   \<and> ((current_method self = None
        \<or> (current_method self = Some m \<and> symbols_attr m = Some locals \<and> map_of locals i = None))
      \<longrightarrow> (map_of (modules self) i = Some md \<longrightarrow> get_symbol self i = Inr (Some md))
        \<and> (map_of (modules self) i = None \<and> map_of (symbols self) i = Some g
              \<longrightarrow> get_symbol self i = Inr (Some g))
        \<and> (map_of (modules self) i = None \<and> map_of (symbols self) i = None
              \<longrightarrow> get_symbol self i = Inr None))"
  by (auto simp: get_symbol_def)

theorem get_symbol_precedence_witness:
  "get_symbol example_scopes ''x'' = Inr (Some (sym_Expression Type_int))
   \<and> get_symbol example_scopes ''y'' = Inr (Some (sym_Module []))
   \<and> get_symbol example_scopes ''z'' = Inr (Some (sym_Type Type_int))
   \<and> get_symbol example_scopes ''w'' = Inr None
   \<and> get_symbol (example_scopes\<lparr>current_method := None\<rparr>) ''x'' = Inr (Some (sym_Module []))"
proof -
  have a: "current_method example_scopes = Some example_method"
    and b: "symbols_attr example_method = Some [(''x'', sym_Expression Type_int)]"
    by (simp_all add: example_scopes_def example_method_def)
  have m: "modules example_scopes = [(''x'', sym_Module []), (''y'', sym_Module [])]"
    and g: "symbols example_scopes = [(''f'', example_method), (''x'', sym_Type Type_str),
              (''y'', sym_Type Type_bool), (''z'', sym_Type Type_int)]"
    by (simp_all add: example_scopes_def)
  show ?thesis
    using get_symbol_precedence [of example_scopes example_method "[(''x'', sym_Expression Type_int)]"
            "''x''" "sym_Expression Type_int" "sym_Module []" "sym_Type Type_str"]
          get_symbol_precedence [of example_scopes example_method "[(''x'', sym_Expression Type_int)]"
            "''y''" "sym_Expression Type_int" "sym_Module []" "sym_Type Type_bool"]
          get_symbol_precedence [of example_scopes example_method "[(''x'', sym_Expression Type_int)]"
            "''z''" "sym_Expression Type_int" "sym_Module []" "sym_Type Type_int"]
          get_symbol_precedence [of example_scopes example_method "[(''x'', sym_Expression Type_int)]"
            "''w''" "sym_Expression Type_int" "sym_Module []" "sym_Type Type_int"]
          get_symbol_precedence [of "example_scopes\<lparr>current_method := None\<rparr>" example_method "[]"
            "''x''" "sym_Expression Type_int" "sym_Module []" "sym_Type Type_str"]
    by (simp add: a b m g)
qed

subsection \<open>String concatenation is typed but not supported\<close>

lemma Concat_validate_type_iff:
  "Concat_validate_type [l, r] = (l = Type_str \<and> r = Type_str)"
  by (auto simp: Concat_validate_type_def BinaryOperation_get_number_of_operands_def
        Concat_valid_types_def)

lemma Concat_fields:
  "result Concat = Type_str" "is_supported Concat = False" "operator Concat = Operator_Plus"
  by (simp_all add: Concat_def Concat_init_def Concat_get_result_def Concat_validate_type_iff
        Concat_is_supported_def)
lemma example_validate_Plus_str:
  "BinaryOp_validate_type example_externals Operator_Plus Type_str Type_str = Some Concat"
  by (simp add: example_externals_def registry_validate_type_def example_registry_def
        Addition_def Concat_fields Concat_validate_type_iff)

text \<open>
  C5. \<open>Concat.validate_type(l, r)\<close> holds exactly when both types are the string type; the
  result type is then the string type, and \<open>is_supported\<close> is false. Hence, where the
  registry resolves \<open>Plus\<close> on two strings to \<open>Concat\<close>, a binary \<open>+\<close> whose operands both
  have string type logs \<open>NotSupportedOperation(Plus)\<close> and leaves the operator slot as
  it was.
\<close>

theorem Concat_typed_not_supported:
  "Concat_validate_type [l, r] = (l = Type_str \<and> r = Type_str)
   \<and> Concat_get_result Type_str Type_str = Type_str
   \<and> result Concat = Type_str
   \<and> is_supported Concat = False
   \<and> (BinaryOp_validate_type ext Operator_Plus Type_str Type_str = Some Concat
        \<and> visit ext right self = (right', s1, Inr r_operand)
        \<and> visit ext left s1 = (left', s2, Inr l_operand)
        \<and> get_type ext s2 l_operand = Inr Type_str
        \<and> get_type ext s2 r_operand = Inr Type_str
      \<longrightarrow> visit ext (BinOp lineno col (slot_ast ast_Add) left right) self =
            (BinOp lineno col (slot_ast ast_Add) left' right',
             s2\<lparr>errors := errors s2 @ [NotSupportedOperation lineno col (ns_operator Operator_Plus)]\<rparr>,
             Inl (Compiler (NotSupportedOperation lineno col (ns_operator Operator_Plus)))))"
  by (simp add: Concat_validate_type_iff Concat_fields Concat_get_result_def BinOp_check_def
        get_bin_op_def log_error_def)

theorem Concat_typed_not_supported_witness:
  "visit example_externals (BinOp 1 44 (slot_ast ast_Add) (Name 1 44 ''s'') (Name 1 48 ''t''))
     example_in_str_method =
   (BinOp 1 44 (slot_ast ast_Add) (Name 1 44 ''s'') (Name 1 48 ''t''),
    example_in_str_method\<lparr>errors := [NotSupportedOperation 1 44 (ns_operator Operator_Plus)]\<rparr>,
    Inl (Compiler (NotSupportedOperation 1 44 (ns_operator Operator_Plus))))"
proof -
  have t: "get_type example_externals example_in_str_method (py_Name 1 44 ''s'') = Inr Type_str"
          "get_type example_externals example_in_str_method (py_Name 1 48 ''t'') = Inr Type_str"
    by (simp_all add: get_type_def get_symbol_def example_in_str_method_def example_str_method_def)
  have e: "errors example_in_str_method = []"
    by (simp add: example_in_str_method_def)
  show ?thesis
    using Concat_typed_not_supported [of Type_str Type_str example_externals "Name 1 48 ''t''"
            example_in_str_method "Name 1 48 ''t''" example_in_str_method "py_Name 1 48 ''t''"
            "Name 1 44 ''s''" "Name 1 44 ''s''" example_in_str_method "py_Name 1 44 ''s''" 1 44]
          example_validate_Plus_str t e
    by simp
qed

subsection \<open>The return statement\<close>

lemma current_method_id_unique:
  assumes "current_method self = Some m"
      and "distinct (map fst (symbols self))"
      and "map_of (symbols self) name = Some m"
      and "\<forall>k. map_of (symbols self) k = Some m \<longrightarrow> k = name"
  shows "current_method_id self = Some name"
proof -
  have "(name, m) \<in> set (symbols self)"
    using assms(3) by (rule map_of_SomeD)
  then obtain kv where f: "find (\<lambda>kv. snd kv = m) (symbols self) = Some kv"
    by (cases "find (\<lambda>kv. snd kv = m) (symbols self)") (auto simp: find_None_iff)
  then have "kv \<in> set (symbols self)" and "snd kv = m"
    by (auto simp: find_Some_iff)
  then have "map_of (symbols self) (fst kv) = Some m"
    using assms(2) by (metis map_of_is_SomeI prod.collapse)
  then have "fst kv = name"
    using assms(4) by blast
  then show ?thesis
    using f assms(1) by (simp add: current_method_id_def)
qed

text \<open>
  C6. A return statement visited inside a method: a returned tuple logs
  \<open>TooManyReturns\<close>; otherwise a returned value under the declared return type \<open>none\<close>
  logs \<open>TypeHintMissing\<close> with the identifier of the method; otherwise a return without
  value under a declared type other than \<open>none\<close> logs \<open>MismatchedTypes\<close> with actual
  \<open>none\<close> and the declared type expected; in the remaining cases the return statement
  logs nothing itself: without value nothing happens, with a value the outcome is that
  of walking the value. The identifier is the key of the method in the global symbols
  when that key is the only one that holds the method.
\<close>

theorem visit_Return_cases:
  assumes "current_method self = Some m" and "return_type_attr m = Some rt"
  shows "(isinstance_Tuple val \<longrightarrow>
            visit_stmt ext (Return lineno col (Some val)) self =
              (Return lineno col (Some val),
               self\<lparr>errors := errors self @ [TooManyReturns lineno col]\<rparr>,
               Inl (Compiler (TooManyReturns lineno col))))
       \<and> (\<not> isinstance_Tuple val \<and> rt = Type_none \<longrightarrow>
            visit_stmt ext (Return lineno col (Some val)) self =
              (Return lineno col (Some val),
               self\<lparr>errors := errors self @ [TypeHintMissing lineno col (current_method_id self)]\<rparr>,
               Inl (Compiler (TypeHintMissing lineno col (current_method_id self)))))
       \<and> (rt \<noteq> Type_none \<longrightarrow>
            visit_stmt ext (Return lineno col None) self =
              (Return lineno col None,
               self\<lparr>errors := errors self @
                  [MismatchedTypes lineno col (type_identifier rt) (type_identifier Type_none) False]\<rparr>,
               Inl (Compiler (MismatchedTypes lineno col (type_identifier rt)
                                (type_identifier Type_none) False))))
       \<and> (rt = Type_none \<longrightarrow>
            visit_stmt ext (Return lineno col None) self = (Return lineno col None, self, Inr ()))
       \<and> (\<not> isinstance_Tuple val \<and> rt \<noteq> Type_none \<longrightarrow>
            visit_stmt ext (Return lineno col (Some val)) self =
              (case visit ext val self of
                 (val', s, r) \<Rightarrow> (Return lineno col (Some val'), s, discard r)))
       \<and> (distinct (map fst (symbols self)) \<and> map_of (symbols self) name = Some m
            \<and> (\<forall>k. map_of (symbols self) k = Some m \<longrightarrow> k = name)
          \<longrightarrow> current_method_id self = Some name)"
proof -
  have rt: "current_return_type self = Some rt"
    using assms by (simp add: current_return_type_def)
  have "distinct (map fst (symbols self)) \<and> map_of (symbols self) name = Some m
            \<and> (\<forall>k. map_of (symbols self) k = Some m \<longrightarrow> k = name)
          \<longrightarrow> current_method_id self = Some name"
    using current_method_id_unique [OF assms(1), of name] by blast
  then show ?thesis
    by (simp add: Return_check_def rt log_error_def split: prod.splits)
qed

theorem visit_Return_cases_witness:
  "visit_stmt example_externals (Return 1 16 None) example_scopes =
     (Return 1 16 None,
      example_scopes\<lparr>errors := [MismatchedTypes 1 16 ''int'' ''none'' False]\<rparr>,
      Inl (Compiler (MismatchedTypes 1 16 ''int'' ''none'' False)))
   \<and> visit_stmt example_externals (Return 1 16 (Some (Tuple 1 23 []))) example_scopes =
     (Return 1 16 (Some (Tuple 1 23 [])),
      example_scopes\<lparr>errors := [TooManyReturns 1 16]\<rparr>,
      Inl (Compiler (TooManyReturns 1 16)))
   \<and> visit_stmt example_externals (Return 1 16 (Some (Num 1 23 (n_int 1)))) example_scopes =
     (Return 1 16 (Some (Num 1 23 (n_int 1))), example_scopes, Inr ())
   \<and> current_method_id example_scopes = Some ''f''
   \<and> visit_stmt example_externals (Return 2 4 (Some (Num 2 11 (n_int 1)))) example_in_untyped_method =
     (Return 2 4 (Some (Num 2 11 (n_int 1))),
      example_in_untyped_method\<lparr>errors := [TypeHintMissing 2 4 (Some ''g'')]\<rparr>,
      Inl (Compiler (TypeHintMissing 2 4 (Some ''g''))))
   \<and> visit_stmt example_externals (Return 2 4 None) example_in_untyped_method =
     (Return 2 4 None, example_in_untyped_method, Inr ())"
proof -
  have a: "current_method example_scopes = Some example_method"
    and b: "return_type_attr example_method = Some Type_int"
    and e: "errors example_scopes = []"
    by (simp_all add: example_scopes_def example_method_def)
  have d: "distinct (map fst (symbols example_scopes))"
    and f: "map_of (symbols example_scopes) ''f'' = Some example_method"
    and u: "\<forall>k. map_of (symbols example_scopes) k = Some example_method \<longrightarrow> k = ''f''"
    by (simp_all add: example_scopes_def example_method_def)
  have a': "current_method example_in_untyped_method = Some example_untyped_method"
    and b': "return_type_attr example_untyped_method = Some Type_none"
    and e': "errors example_in_untyped_method = []"
    and i': "current_method_id example_in_untyped_method = Some ''g''"
    by (simp_all add: example_in_untyped_method_def example_untyped_method_def current_method_id_def)
  note r1 = visit_Return_cases [OF a b, of "Tuple 1 23 []" example_externals 1 16 "''f''"]
  note r2 = visit_Return_cases [OF a b, of "Num 1 23 (n_int 1)" example_externals 1 16 "''f''"]
  note r3 = visit_Return_cases [OF a' b', of "Num 2 11 (n_int 1)" example_externals 2 4 "''g''"]
  have "current_method_id example_scopes = Some ''f''"
    using r1 d f u by blast
  moreover have "visit_stmt example_externals (Return 1 16 None) example_scopes =
     (Return 1 16 None,
      example_scopes\<lparr>errors := [MismatchedTypes 1 16 ''int'' ''none'' False]\<rparr>,
      Inl (Compiler (MismatchedTypes 1 16 ''int'' ''none'' False)))"
    using r1 by (simp add: e)
  moreover have "visit_stmt example_externals (Return 1 16 (Some (Tuple 1 23 []))) example_scopes =
     (Return 1 16 (Some (Tuple 1 23 [])),
      example_scopes\<lparr>errors := [TooManyReturns 1 16]\<rparr>,
      Inl (Compiler (TooManyReturns 1 16)))"
    using r1 by (simp add: e)
  moreover have "visit_stmt example_externals (Return 1 16 (Some (Num 1 23 (n_int 1)))) example_scopes =
     (Return 1 16 (Some (Num 1 23 (n_int 1))), example_scopes, Inr ())"
    using r2 by (simp add: visit_Num_def)
  moreover have "visit_stmt example_externals (Return 2 4 (Some (Num 2 11 (n_int 1))))
       example_in_untyped_method =
     (Return 2 4 (Some (Num 2 11 (n_int 1))),
      example_in_untyped_method\<lparr>errors := [TypeHintMissing 2 4 (Some ''g'')]\<rparr>,
      Inl (Compiler (TypeHintMissing 2 4 (Some ''g''))))"
    using r3 by (simp add: e' i')
  moreover have "visit_stmt example_externals (Return 2 4 None) example_in_untyped_method =
     (Return 2 4 None, example_in_untyped_method, Inr ())"
    using r3 by simp
  ultimately show ?thesis by blast
qed

subsection \<open>A visit only appends errors, and none when it returns normally\<close>

lemma only_logs_refl [simp]: "only_logs s s r"
  unfolding only_logs_def by (rule exI [of _ "[]"]) (simp split: sum.splits)

lemma only_logs_Inr [simp]: "only_logs s s' (Inr v) = (s' = s)"
  by (auto simp: only_logs_def)

lemma only_logs_Inl: "only_logs s s' (Inl e) \<Longrightarrow> only_logs s s' (Inl e')"
  by (auto simp: only_logs_def)

lemma only_logs_trans: "only_logs s s1 r1 \<Longrightarrow> only_logs s1 s2 (Inl e) \<Longrightarrow> only_logs s s2 (Inl e')"
  by (auto simp: only_logs_def)

lemma log_error_only_logs: "log_error s e = (s', r) \<Longrightarrow> only_logs s s' r"
  by (auto simp: log_error_def only_logs_def)

lemma log_error_after: "only_logs s s1 r1 \<Longrightarrow> log_error s1 e = (s2, r) \<Longrightarrow> only_logs s s2 r"
  by (auto simp: log_error_def only_logs_def)

lemma except_MismatchedTypes_after:
  "only_logs s s1 r1 \<Longrightarrow> except_MismatchedTypes l c s1 e = (s2, r) \<Longrightarrow> only_logs s s2 r"
  by (auto simp: except_MismatchedTypes_def log_error_def only_logs_def
           split: pyexn.splits CompilerError.splits if_splits)

lemma visit_Num_only_logs: "visit_Num l c n s = (s', r) \<Longrightarrow> only_logs s s' r"
  by (auto simp: visit_Num_def dest: log_error_only_logs split: if_splits)

lemma check_test_only_logs: "check_test ext l c t s = (s', r) \<Longrightarrow> only_logs s s' r"
  by (auto simp: check_test_def dest: log_error_only_logs split: sum.splits if_splits)

lemma Subscript_check_only_logs: "Subscript_check ext l c v i s = (s', r) \<Longrightarrow> only_logs s s' r"
  by (auto simp: Subscript_check_def dest: log_error_only_logs
           split: sum.splits if_splits itype.splits)

lemma BinOp_check_only_logs: "BinOp_check ext l c op rv lv s = (op', s', r) \<Longrightarrow> only_logs s s' r"
  by (auto simp: BinOp_check_def dest: log_error_only_logs except_MismatchedTypes_after [OF only_logs_refl]
           split: option.splits sum.splits if_splits prod.splits)

lemma UnaryOp_check_only_logs: "UnaryOp_check ext l c op v s = (op', s', r) \<Longrightarrow> only_logs s s' r"
  by (auto simp: UnaryOp_check_def dest: log_error_only_logs except_MismatchedTypes_after [OF only_logs_refl]
           split: option.splits sum.splits if_splits prod.splits)

lemma returns_None_only_logs [simp]: "only_logs s s' (returns_None r) = only_logs s s' r"
  by (cases r) (auto simp: only_logs_def)

lemma discard_only_logs [simp]: "only_logs s s' (discard r) = only_logs s s' r"
  by (cases r) (auto simp: only_logs_def)

lemma visit_each_only_logs:
  assumes "\<And>x u. x \<in> set xs \<Longrightarrow> (case f x u of (x', u', r) \<Rightarrow> only_logs u u' r)"
  shows "case visit_each f xs s of (xs', s', r) \<Rightarrow> only_logs s s' r"
  using assms
proof (induction xs arbitrary: s)
  case Nil
  then show ?case by simp
next
  case (Cons x xs)
  have x: "case f x s of (x', u', r) \<Rightarrow> only_logs s u' r"
    using Cons.prems by simp
  show ?case
  proof (cases "f x s")
    case (fields x' s1 r1)
    show ?thesis
    proof (cases r1)
      case (Inl e)
      then show ?thesis using fields x by (auto intro: only_logs_Inl)
    next
      case (Inr v)
      then have "s1 = s" using fields x by simp
      moreover have "case visit_each f xs s of (xs', s', r) \<Rightarrow> only_logs s s' r"
        using Cons.IH Cons.prems by simp
      ultimately show ?thesis using fields Inr by (simp split: prod.splits)
    qed
  qed
qed

lemma visit_each_only_logs_rule:
  assumes "\<And>x u x' u' r. x \<in> set xs \<Longrightarrow> f x u = (x', u', r) \<Longrightarrow> only_logs u u' r"
      and "visit_each f xs s = (xs', s', r)"
  shows "only_logs s s' r"
proof -
  have "case visit_each f xs s of (xs', s', r) \<Rightarrow> only_logs s s' r"
    by (rule visit_each_only_logs) (auto dest: assms(1))
  then show ?thesis using assms(2) by simp
qed

lemma Compare_loop_only_logs:
  assumes "\<And>c u c' u' r. c \<in> set cs \<Longrightarrow> visit ext c u = (c', u', r) \<Longrightarrow> only_logs u u' r"
      and "Compare_loop ext ops cs l line col rt self = (ops', cs', s', line', col', r)"
  shows "only_logs self s' r"
  using assms
proof (induction cs arbitrary: ops l line col rt self ops' cs' s' line' col' r)
  case Nil
  then show ?case by (cases ops) auto
next
  case (Cons c cs)
  have ih: "only_logs u s3 r3"
    if "Compare_loop ext ops3 cs l3 line3 col3 rt3 u = (a, b, s3, d, e, r3)"
    for ops3 l3 line3 col3 rt3 u a b s3 d e r3
  proof (rule Cons.IH [OF _ that])
    fix c u c' u' r
    assume "c \<in> set cs" "visit ext c u = (c', u', r)"
    then show "only_logs u u' r" using Cons.prems(1) [of c u c' u' r] by simp
  qed
  note elem = Cons.prems(1) [of c, simplified]
  show ?case
  proof (cases ops)
    case Nil
    then show ?thesis using Cons.prems(2) by auto
  next
    case (Cons op ops2)
    then show ?thesis
      using Cons.prems(2)
      by (auto dest!: ih elem log_error_only_logs intro: only_logs_Inl
               split: option.splits sum.splits prod.splits if_splits)
  qed
qed

lemma BoolOp_loop_only_logs:
  assumes "\<And>c u c' u' r. c \<in> set vs \<Longrightarrow> visit ext c u = (c', u', r) \<Longrightarrow> only_logs u u' r"
      and "BoolOp_loop ext oper vs l line col bo rt self = (vs', s', line', col', r)"
  shows "only_logs self s' r"
  using assms
proof (induction vs arbitrary: l line col bo rt self vs' s' line' col' r)
  case Nil
  then show ?case by auto
next
  case (Cons operand rest)
  have ih: "only_logs u s3 r3"
    if "BoolOp_loop ext oper rest l3 line3 col3 bo3 rt3 u = (a, s3, d, e, r3)"
    for l3 line3 col3 bo3 rt3 u a s3 d e r3
  proof (rule Cons.IH [OF _ that])
    fix c u c' u' r
    assume "c \<in> set rest" "visit ext c u = (c', u', r)"
    then show "only_logs u u' r" using Cons.prems(1) [of c u c' u' r] by simp
  qed
  note elem = Cons.prems(1) [of operand, simplified]
  show ?case
    using Cons.prems(2)
    by (auto dest!: ih elem intro: only_logs_Inl
             split: option.splits sum.splits prod.splits if_splits)
qed

lemma visit_only_logs: "visit ext e self = (e', s', r) \<Longrightarrow> only_logs self s' r"
proof (induction e arbitrary: self e' s' r)
  case (BinOp lineno col op left right)
  show ?case
    using BinOp.prems
    by (auto dest!: BinOp.IH BinOp_check_only_logs intro: only_logs_Inl
             split: prod.splits sum.splits)
next
  case (UnaryOp lineno col op operand)
  show ?case
    using UnaryOp.prems
    by (auto dest!: UnaryOp.IH UnaryOp_check_only_logs intro: only_logs_Inl
             split: prod.splits sum.splits)
next
  case (Compare lineno col left ops comparators)
  have elems: "\<And>c u c' u' r. c \<in> set comparators \<Longrightarrow> visit ext c u = (c', u', r) \<Longrightarrow> only_logs u u' r"
    using Compare.IH(2) by simp
  show ?case
  proof (cases "length comparators \<noteq> length ops")
    case True
    then show ?thesis
      using Compare.prems by (auto dest!: log_error_only_logs split: prod.splits)
  next
    case False
    obtain left' s1 r1 where l: "visit ext left self = (left', s1, r1)"
      by (cases "visit ext left self") auto
    have ih1: "only_logs self s1 r1"
      by (rule Compare.IH(1) [OF l])
    show ?thesis
    proof (cases r1)
      case (Inl e)
      obtain s2 r2 where x: "except_MismatchedTypes lineno col s1 e = (s2, r2 :: pyexn + pyval)"
        by (cases "except_MismatchedTypes lineno col s1 e :: TypeAnalyser \<times> (pyexn + pyval)") auto
      have "only_logs self s2 r2"
        by (rule except_MismatchedTypes_after [OF ih1 x])
      then show ?thesis using Compare.prems False l Inl x by auto
    next
      case (Inr l_operand)
      then have s1: "s1 = self" using ih1 by simp
      obtain ops' cs' s2 line' col' r2
        where c: "Compare_loop ext ops comparators l_operand lineno col None self
                    = (ops', cs', s2, line', col', r2)"
        by (cases "Compare_loop ext ops comparators l_operand lineno col None self") auto
      have lp: "only_logs self s2 r2"
        by (rule Compare_loop_only_logs [OF elems c])
      show ?thesis
      proof (cases r2)
        case (Inl e2)
        obtain s3 r3 where x: "except_MismatchedTypes line' col' s2 e2 = (s3, r3 :: pyexn + pyval)"
          by (cases "except_MismatchedTypes line' col' s2 e2 :: TypeAnalyser \<times> (pyexn + pyval)") auto
        have "only_logs self s3 r3"
          by (rule except_MismatchedTypes_after [OF lp x])
        then show ?thesis using Compare.prems False l Inr s1 c Inl x by auto
      next
        case (Inr rt)
        then have "s2 = self" using lp by simp
        then show ?thesis using Compare.prems False l \<open>r1 = Inr l_operand\<close> s1 c Inr by auto
      qed
    qed
  qed
next
  case (BoolOp lineno col op vals)
  show ?case
  proof (cases "get_operator op")
    case None
    then show ?thesis
      using BoolOp.prems by (auto dest!: log_error_only_logs split: prod.splits)
  next
    case (Some oper)
    show ?thesis
    proof (cases vals)
      case Nil
      then show ?thesis using BoolOp.prems Some by auto
    next
      case (Cons v0 rest)
      obtain v0' s1 r1 where l: "visit ext v0 self = (v0', s1, r1)"
        by (cases "visit ext v0 self") auto
      have ih1: "only_logs self s1 r1"
        by (rule BoolOp.IH [OF _ l]) (simp add: Cons)
      have elems: "only_logs u u' r" if "c \<in> set rest" "visit ext c u = (c', u', r)" for c u c' u' r
        by (rule BoolOp.IH [OF _ that(2)]) (simp add: Cons that(1))
      show ?thesis
      proof (cases r1)
        case (Inl e)
        obtain s2 r2 where x: "except_MismatchedTypes lineno col s1 e = (s2, r2 :: pyexn + pyval)"
          by (cases "except_MismatchedTypes lineno col s1 e :: TypeAnalyser \<times> (pyexn + pyval)") auto
        have "only_logs self s2 r2"
          by (rule except_MismatchedTypes_after [OF ih1 x])
        then show ?thesis using BoolOp.prems Some Cons l Inl x by auto
      next
        case (Inr l_operand)
        then have s1: "s1 = self" using ih1 by simp
        obtain rest' s2 line' col' r2
          where c: "BoolOp_loop ext oper rest l_operand lineno col None None self
                      = (rest', s2, line', col', r2)"
          by (cases "BoolOp_loop ext oper rest l_operand lineno col None None self") auto
        have lp: "only_logs self s2 r2"
          by (rule BoolOp_loop_only_logs [OF elems c])
        show ?thesis
        proof (cases r2)
          case (Inl e2)
          obtain s3 r3 where x: "except_MismatchedTypes line' col' s2 e2 = (s3, r3 :: pyexn + pyval)"
            by (cases "except_MismatchedTypes line' col' s2 e2 :: TypeAnalyser \<times> (pyexn + pyval)") auto
          have "only_logs self s3 r3"
            by (rule except_MismatchedTypes_after [OF lp x])
          then show ?thesis using BoolOp.prems Some Cons l Inr s1 c Inl x by auto
        next
          case (Inr res)
          then have "s2 = self" using lp by simp
          then show ?thesis
            using BoolOp.prems Some Cons l \<open>r1 = Inr l_operand\<close> s1 c Inr
            by (auto split: prod.splits)
        qed
      qed
    qed
  qed
next
  case (Num lineno col n)
  then show ?case by (auto dest!: visit_Num_only_logs split: prod.splits)
next
  case (Str lineno col str)
  then show ?case by auto
next
  case (Tuple lineno col elts)
  then show ?case by auto
next
  case (NameConstant lineno col c)
  then show ?case by auto
next
  case (Name lineno col ident)
  then show ?case by auto
next
  case (Subscript lineno col v slc)
  show ?case
    using Subscript.prems
    by (auto dest!: Subscript.IH Subscript_check_only_logs intro: only_logs_Inl
             split: prod.splits sum.splits)
next
  case (Index v)
  show ?case using Index.prems by (auto dest!: Index.IH split: prod.splits)
next
  case (Slice children)
  obtain cs' s1 r1 where c: "visit_each (visit ext) children self = (cs', s1, r1)"
    by (cases "visit_each (visit ext) children self") auto
  have "only_logs self s1 r1"
    by (rule visit_each_only_logs_rule [OF _ c]) (rule Slice.IH)
  then show ?case using Slice.prems c by auto
next
  case (IfExp lineno col test body orelse)
  show ?case
    using IfExp.prems
    by (auto dest!: IfExp.IH(1) check_test_only_logs intro: only_logs_Inl
             split: prod.splits sum.splits)
next
  case (OtherExpr lineno col children)
  obtain cs' s1 r1 where c: "visit_each (visit ext) children self = (cs', s1, r1)"
    by (cases "visit_each (visit ext) children self") auto
  have "only_logs self s1 r1"
    by (rule visit_each_only_logs_rule [OF _ c]) (rule OtherExpr.IH)
  then show ?case using OtherExpr.prems c by auto
qed

lemma only_logs_stmt_logs: "only_logs s s' r \<Longrightarrow> stmt_logs s s' r"
  by (auto simp: only_logs_def stmt_logs_def split: sum.splits)

lemma stmt_logs_Inl: "stmt_logs s s' (Inl e) \<Longrightarrow> stmt_logs s s' (Inl e')"
  by (simp add: stmt_logs_def)

lemma stmt_logs_step:
  "stmt_logs s s1 (Inr v) \<Longrightarrow> stmt_logs (s1\<lparr>current_method := cm\<rparr>) s2 r \<Longrightarrow> stmt_logs s s2 r"
  "stmt_logs s s1 (Inr v) \<Longrightarrow> stmt_logs s1 s2 r \<Longrightarrow> stmt_logs s s2 r"
  by (auto simp: stmt_logs_def split: sum.splits)

lemma stmt_logs_current_method [simp]:
  "stmt_logs s (s'\<lparr>current_method := cm\<rparr>) r = stmt_logs s s' r"
  by (simp add: stmt_logs_def split: sum.splits)

lemma stmt_logs_discard [simp]: "stmt_logs s s' (discard r) = stmt_logs s s' r"
  by (cases r) (auto simp: stmt_logs_def)

lemma stmt_logs_refl [simp]: "stmt_logs s s r"
  by (simp add: stmt_logs_def split: sum.splits)

lemma visit_each_stmt_logs:
  assumes "\<And>x u x' u' r. x \<in> set xs \<Longrightarrow> f x u = (x', u', r) \<Longrightarrow> stmt_logs u u' r"
      and "visit_each f xs s = (xs', s', r)"
  shows "stmt_logs s s' r"
  using assms
proof (induction xs arbitrary: s xs' s' r)
  case Nil
  then show ?case by auto
next
  case (Cons x xs)
  obtain x' s1 r1 where x: "f x s = (x', s1, r1)"
    by (cases "f x s") auto
  have h: "stmt_logs s s1 r1"
    by (rule Cons.prems(1) [OF _ x]) simp
  show ?case
  proof (cases r1)
    case (Inl e)
    then show ?thesis using Cons.prems(2) x h by (auto intro: stmt_logs_Inl)
  next
    case (Inr v)
    obtain xs2 s2 r2 where t: "visit_each f xs s1 = (xs2, s2, r2)"
      by (cases "visit_each f xs s1") auto
    have "stmt_logs s1 s2 r2"
    proof (rule Cons.IH [OF _ t])
      fix y u y' u' r
      assume "y \<in> set xs" "f y u = (y', u', r)"
      then show "stmt_logs u u' r" using Cons.prems(1) [of y u y' u' r] by simp
    qed
    then have "stmt_logs s s2 r2"
      using h Inr by (auto intro: stmt_logs_step(2))
    then show ?thesis using Cons.prems(2) x Inr t by auto
  qed
qed

lemma visit_opt_stmt_logs:
  assumes "\<And>x u x' u' r. f x u = (x', u', r) \<Longrightarrow> stmt_logs u u' r"
      and "visit_opt f v s = (v', s', r)"
  shows "stmt_logs s s' r"
  using assms by (cases v) (auto split: prod.splits)

lemma visit_stmt_logs_expr: "visit ext e s = (e', s', r) \<Longrightarrow> stmt_logs s s' r"
  by (rule only_logs_stmt_logs) (rule visit_only_logs)

lemma visit_arg_stmt_logs: "visit_arg ext a s = (a', s', r) \<Longrightarrow> stmt_logs s s' r"
  by (cases "(ext, a, s)" rule: visit_arg.cases)
     (auto dest!: visit_stmt_logs_expr log_error_only_logs only_logs_stmt_logs split: prod.splits)

lemma visit_arguments_stmt_logs:
  assumes "visit_arguments ext a s = (a', s', r)"
  shows "stmt_logs s s' r"
proof (cases a)
  case (arguments args vararg kwonlyargs kw_defaults kwarg defaults)
  have each_arg: "stmt_logs u u' r"
    if "visit_each (visit_arg ext) xs u = (xs', u', r)" for xs u xs' u' r
    by (rule visit_each_stmt_logs [OF _ that]) (rule visit_arg_stmt_logs)
  have each_expr: "stmt_logs u u' r"
    if "visit_each (visit ext) xs u = (xs', u', r)" for xs u xs' u' r
    by (rule visit_each_stmt_logs [OF _ that]) (rule visit_stmt_logs_expr)
  have opt_arg: "stmt_logs u u' r"
    if "visit_opt (visit_arg ext) x u = (x', u', r)" for x u x' u' r
    by (rule visit_opt_stmt_logs [OF _ that]) (rule visit_arg_stmt_logs)
  obtain args1 s1 r1 where v1: "visit_each (visit_arg ext) args s = (args1, s1, r1)"
    by (cases "visit_each (visit_arg ext) args s") auto
  obtain args2 s2 r2 where v2: "visit_each (visit_arg ext) args1 s1 = (args2, s2, r2)"
    by (cases "visit_each (visit_arg ext) args1 s1") auto
  obtain vararg' s3 r3 where v3: "visit_opt (visit_arg ext) vararg s2 = (vararg', s3, r3)"
    by (cases "visit_opt (visit_arg ext) vararg s2") auto
  obtain kwonlyargs' s4 r4 where v4: "visit_each (visit_arg ext) kwonlyargs s3 = (kwonlyargs', s4, r4)"
    by (cases "visit_each (visit_arg ext) kwonlyargs s3") auto
  obtain kw_defaults' s5 r5 where v5: "visit_each (visit ext) kw_defaults s4 = (kw_defaults', s5, r5)"
    by (cases "visit_each (visit ext) kw_defaults s4") auto
  obtain kwarg' s6 r6 where v6: "visit_opt (visit_arg ext) kwarg s5 = (kwarg', s6, r6)"
    by (cases "visit_opt (visit_arg ext) kwarg s5") auto
  obtain defaults' s7 r7 where v7: "visit_each (visit ext) defaults s6 = (defaults', s7, r7)"
    by (cases "visit_each (visit ext) defaults s6") auto
  note l1 = each_arg [OF v1] and l2 = each_arg [OF v2] and l3 = opt_arg [OF v3]
    and l4 = each_arg [OF v4] and l5 = each_expr [OF v5] and l6 = opt_arg [OF v6]
    and l7 = each_expr [OF v7]
  show ?thesis
    using assms arguments v1 v2 v3 v4 v5 v6 v7 l1 l2 l3 l4 l5 l6 l7
    by (auto simp: stmt_logs_def split: sum.splits)
qed

lemma Return_check_stmt_logs: "Return_check l c v s = (s', r) \<Longrightarrow> stmt_logs s s' r"
  by (auto simp: Return_check_def dest!: log_error_only_logs only_logs_stmt_logs
           split: option.splits if_splits)

lemma Assign_check_stmt_logs: "Assign_check l c ts s = (s', r) \<Longrightarrow> stmt_logs s s' r"
  by (auto simp: Assign_check_def dest!: log_error_only_logs only_logs_stmt_logs
           split: list.splits if_splits)

lemma check_test_stmt_logs: "check_test ext l c t s = (s', r) \<Longrightarrow> stmt_logs s s' r"
  by (rule only_logs_stmt_logs) (rule check_test_only_logs)

lemma visit_stmt_logs: "visit_stmt ext st self = (st', s', r) \<Longrightarrow> stmt_logs self s' r"
proof (induction st arbitrary: self st' s' r)
  case (FunctionDef lineno col name args body)
  have body: "stmt_logs u u' r"
    if "visit_each (visit_stmt ext) body u = (xs', u', r)" for u xs' u' r
    by (rule visit_each_stmt_logs [OF _ that]) (rule FunctionDef.IH)
  obtain args' s1 r1 where a: "visit_arguments ext args self = (args', s1, r1)"
    by (cases "visit_arguments ext args self") auto
  note l1 = visit_arguments_stmt_logs [OF a]
  show ?case
  proof (cases r1)
    case (Inl e)
    then show ?thesis using FunctionDef.prems a l1 by (auto intro: stmt_logs_Inl)
  next
    case (Inr u)
    show ?thesis
    proof (cases "map_of (symbols s1) name")
      case None
      then show ?thesis using FunctionDef.prems a l1 Inr by (auto simp: stmt_logs_def)
    next
      case (Some meth)
      obtain body' s2 r2
        where b: "visit_each (visit_stmt ext) body (s1\<lparr>current_method := Some meth\<rparr>) = (body', s2, r2)"
        by (cases "visit_each (visit_stmt ext) body (s1\<lparr>current_method := Some meth\<rparr>)") auto
      have "stmt_logs s1 s2 r2"
        using body [OF b] by (simp add: stmt_logs_def split: sum.splits)
      then have "stmt_logs self s2 r2"
        using l1 Inr by (auto intro: stmt_logs_step(2))
      then show ?thesis
        using FunctionDef.prems a Inr Some b
        by (cases r2) (auto simp: stmt_logs_def)
    qed
  qed
next
  case (Return lineno col v)
  obtain s1 r1 where c: "Return_check lineno col v self = (s1, r1)"
    by (cases "Return_check lineno col v self") auto
  note l1 = Return_check_stmt_logs [OF c]
  show ?case
  proof (cases r1)
    case (Inl e)
    then show ?thesis using Return.prems c l1 by (auto intro: stmt_logs_Inl)
  next
    case (Inr u)
    obtain v' s2 r2 where o: "visit_opt (visit ext) v s1 = (v', s2, r2)"
      by (cases "visit_opt (visit ext) v s1") auto
    have "stmt_logs s1 s2 r2"
      by (rule visit_opt_stmt_logs [OF _ o]) (rule visit_stmt_logs_expr)
    then have "stmt_logs self s2 r2"
      using l1 Inr by (auto intro: stmt_logs_step(2))
    then show ?thesis using Return.prems c Inr o by auto
  qed
next
  case (Assign lineno col targets v)
  obtain s1 r1 where c: "Assign_check lineno col targets self = (s1, r1)"
    by (cases "Assign_check lineno col targets self") auto
  note l1 = Assign_check_stmt_logs [OF c]
  show ?case
  proof (cases r1)
    case (Inl e)
    then show ?thesis using Assign.prems c l1 by (auto intro: stmt_logs_Inl)
  next
    case (Inr u)
    obtain targets' s2 r2 where t: "visit_each (visit ext) targets s1 = (targets', s2, r2)"
      by (cases "visit_each (visit ext) targets s1") auto
    have "stmt_logs s1 s2 r2"
      by (rule visit_each_stmt_logs [OF _ t]) (rule visit_stmt_logs_expr)
    then have l2: "stmt_logs self s2 r2"
      using l1 Inr by (auto intro: stmt_logs_step(2))
    show ?thesis
    proof (cases r2)
      case (Inl e)
      then show ?thesis using Assign.prems c \<open>r1 = Inr u\<close> t l2 by (auto intro: stmt_logs_Inl)
    next
      case (Inr u2)
      obtain v' s3 r3 where e: "visit ext v s2 = (v', s3, r3)"
        by (cases "visit ext v s2") auto
      have "stmt_logs self s3 r3"
        using l2 Inr visit_stmt_logs_expr [OF e] by (auto intro: stmt_logs_step(2))
      then show ?thesis using Assign.prems c \<open>r1 = Inr u\<close> t Inr e by auto
    qed
  qed
next
  case (While lineno col test body orelse)
  have body: "stmt_logs u u' r"
    if "visit_each (visit_stmt ext) body u = (xs', u', r)" for u xs' u' r
    by (rule visit_each_stmt_logs [OF _ that]) (rule While.IH(1))
  have orelse: "stmt_logs u u' r"
    if "visit_each (visit_stmt ext) orelse u = (xs', u', r)" for u xs' u' r
    by (rule visit_each_stmt_logs [OF _ that]) (rule While.IH(2))
  show ?case
    using While.prems
    by (auto dest!: visit_stmt_logs_expr check_test_stmt_logs body orelse
             simp: stmt_logs_def split: prod.splits sum.splits)
next
  case (If lineno col test body orelse)
  have body: "stmt_logs u u' r"
    if "visit_each (visit_stmt ext) body u = (xs', u', r)" for u xs' u' r
    by (rule visit_each_stmt_logs [OF _ that]) (rule If.IH(1))
  have orelse: "stmt_logs u u' r"
    if "visit_each (visit_stmt ext) orelse u = (xs', u', r)" for u xs' u' r
    by (rule visit_each_stmt_logs [OF _ that]) (rule If.IH(2))
  show ?case
    using If.prems
    by (auto dest!: visit_stmt_logs_expr check_test_stmt_logs body orelse
             simp: stmt_logs_def split: prod.splits sum.splits if_splits)
next
  case Break
  then show ?case by auto
next
  case Continue
  then show ?case by auto
next
  case (OtherStmt children)
  let ?f = "\<lambda>c s. case c of
                      Inl e \<Rightarrow> (case visit ext e s of (e', s', r) \<Rightarrow> (Inl e', s', discard r))
                    | Inr st \<Rightarrow> (case visit_stmt ext st s of (st', s', r) \<Rightarrow> (Inr st', s', r))"
  obtain children' s1 r1 where c: "visit_each ?f children self = (children', s1, r1)"
    by (cases "visit_each ?f children self") auto
  have "stmt_logs self s1 r1"
  proof (rule visit_each_stmt_logs [OF _ c])
    fix x u x' u' r
    assume x: "x \<in> set children" and f: "?f x u = (x', u', r)"
    show "stmt_logs u u' r"
    proof (cases x)
      case (Inl e)
      then show ?thesis
        using f by (auto dest!: visit_stmt_logs_expr split: prod.splits)
    next
      case (Inr st)
      then have "st \<in> Basic_BNFs.setr x" by simp
      then show ?thesis
        using f Inr OtherStmt.IH [OF x] by (auto split: prod.splits)
    qed
  qed
  then show ?case using OtherStmt.prems c by auto
qed

subsection \<open>An error ends the walk\<close>

lemma visit_each_append_raise:
  "visit_each f pre s = (pre', s1, Inr ()) \<Longrightarrow> f x s1 = (x', s2, Inl e)
     \<Longrightarrow> visit_each f (pre @ x # post) s = (pre' @ x' # post, s2, Inl e)"
proof (induction pre arbitrary: s pre')
  case Nil
  then show ?case by simp
next
  case (Cons y ys)
  obtain y' u r where y: "f y s = (y', u, r)"
    by (cases "f y s") auto
  show ?case
  proof (cases r)
    case (Inl e')
    then show ?thesis using Cons.prems y by simp
  next
    case (Inr v)
    obtain ys' u' r' where t: "visit_each f ys u = (ys', u', r')"
      by (cases "visit_each f ys u") auto
    then have "r' = Inr ()" "u' = s1" "pre' = y' # ys'"
      using Cons.prems(1) y Inr by simp_all
    then have "visit_each f (ys @ x # post) u = (ys' @ x' # post, s2, Inl e)"
      using Cons.IH [of u ys'] t Cons.prems(2) by simp
    then show ?thesis using y Inr \<open>pre' = y' # ys'\<close> by simp
  qed
qed

text \<open>
  C1 (as the code has it). When an error is logged the walk stops at once and is not
  resumed: \<open>_log_error\<close> appends the error and raises it, and no visitor of a statement,
  of a function body or of the module catches it. A visit that returns normally has
  logged nothing (an expression leaves the state as it was; a statement and a module
  leave the errors as they were), and when a statement raises, the statements after it
  in the module or in the function body are not visited: the walk ends with that
  exception.
\<close>

theorem first_error_aborts_walk:
  "(visit ext e self = (e', s', Inr v) \<longrightarrow> s' = self)
   \<and> (visit_stmt ext st0 self0 = (st0', s0', Inr u0) \<longrightarrow> errors s0' = errors self0)
   \<and> (visit_Module ext m selfm = (m', sm', Inr um) \<longrightarrow> errors sm' = errors selfm)
   \<and> (visit_each (visit_stmt ext) pre self1 = (pre', s1, Inr ())
        \<and> visit_stmt ext st s1 = (st', s2, Inl x)
      \<longrightarrow> visit_Module ext (Module (pre @ st # post)) self1 = (Module (pre' @ st' # post), s2, Inl x))
   \<and> (visit_arguments ext args self2 = (args', sa, Inr ())
        \<and> map_of (symbols sa) name = Some meth
        \<and> visit_each (visit_stmt ext) body (sa\<lparr>current_method := Some meth\<rparr>) = (body', sb, Inr ())
        \<and> visit_stmt ext bst sb = (bst', sc, Inl y)
      \<longrightarrow> visit_stmt ext (FunctionDef lineno col name args (body @ bst # rest)) self2 =
            (FunctionDef lineno col name args' (body' @ bst' # rest), sc, Inl y))"
proof -
  have "s' = self" if "visit ext e self = (e', s', Inr v)"
    using visit_only_logs [OF that] by simp
  moreover have "errors s0' = errors self0" if "visit_stmt ext st0 self0 = (st0', s0', Inr u0)"
    using visit_stmt_logs [OF that] by (simp add: stmt_logs_def)
  moreover have "errors sm' = errors selfm" if m: "visit_Module ext m selfm = (m', sm', Inr um)"
  proof (cases m)
    case (Module stmts)
    obtain stmts' where b: "visit_each (visit_stmt ext) stmts selfm = (stmts', sm', Inr um)"
      using m Module by (auto split: prod.splits)
    have "stmt_logs selfm sm' (Inr um :: pyexn + unit)"
      by (rule visit_each_stmt_logs [OF _ b]) (rule visit_stmt_logs)
    then show ?thesis by (simp add: stmt_logs_def)
  qed
  ultimately show ?thesis
    by (auto simp: visit_each_append_raise)
qed

theorem first_error_aborts_walk_witness:
  "TypeAnalyser_init example_externals example_two_errors [] =
     (example_two_errors, example_initial\<lparr>errors := [InvalidType 1 0 ''float'']\<rparr>,
      Inl (Compiler (InvalidType 1 0 ''float'')))
   \<and> visit_stmt example_externals
        (FunctionDef 1 0 ''f'' example_no_arguments
           ([example_good_statement] @ example_bad_statement # [example_later_statement]))
        (example_scopes\<lparr>current_method := None\<rparr>) =
     (FunctionDef 1 0 ''f'' example_no_arguments
           ([example_good_statement] @ example_bad_statement # [example_later_statement]),
      example_scopes\<lparr>errors := [InvalidType 1 0 ''float'']\<rparr>,
      Inl (Compiler (InvalidType 1 0 ''float'')))
   \<and> errors example_initial = errors example_initial"
proof -
  let ?bad = "example_initial\<lparr>errors := [InvalidType 1 0 ''float'']\<rparr>"
  let ?x = "Compiler (InvalidType 1 0 ''float'')"
  let ?in_f = "example_scopes\<lparr>current_method := Some example_method\<rparr>"
  have e: "visit example_externals (Num 3 0 (n_int 7)) example_initial
             = (Num 3 0 (n_int 7), example_initial, Inr (py_int 7))"
    by (simp add: visit_Num_def)
  have good: "visit_stmt example_externals example_good_statement s
                = (example_good_statement, s, Inr ())" for s
    by (simp add: example_good_statement_def visit_Num_def)
  have bad: "visit_stmt example_externals example_bad_statement s
               = (example_bad_statement, s\<lparr>errors := errors s @ [InvalidType 1 0 ''float'']\<rparr>, Inl ?x)" for s
    by (simp add: example_bad_statement_def visit_Num_def log_error_def)
  have m: "visit_Module example_externals (Module [example_good_statement]) example_initial
             = (Module [example_good_statement], example_initial, Inr ())"
    by (simp add: good)
  have pre: "visit_each (visit_stmt example_externals) [] example_initial = ([], example_initial, Inr ())"
    by simp
  have bad1: "visit_stmt example_externals example_bad_statement example_initial
                = (example_bad_statement, ?bad, Inl ?x)"
    by (simp add: bad example_initial_def)
  have args: "visit_arguments example_externals example_no_arguments (example_scopes\<lparr>current_method := None\<rparr>)
                = (example_no_arguments, example_scopes\<lparr>current_method := None\<rparr>, Inr ())"
    by (simp add: example_no_arguments_def)
  have f: "map_of (symbols (example_scopes\<lparr>current_method := None\<rparr>)) ''f'' = Some example_method"
    by (simp add: example_scopes_def)
  have body: "visit_each (visit_stmt example_externals) [example_good_statement]
                (example_scopes\<lparr>current_method := None, current_method := Some example_method\<rparr>)
              = ([example_good_statement], example_scopes, Inr ())"
    by (simp add: good example_scopes_def)
  have bad2: "visit_stmt example_externals example_bad_statement example_scopes
                = (example_bad_statement, example_scopes\<lparr>errors := [InvalidType 1 0 ''float'']\<rparr>, Inl ?x)"
    by (simp add: bad example_scopes_def)
  note t = first_error_aborts_walk
             [where ext = example_externals
                and e = "Num 3 0 (n_int 7)" and self = example_initial and e' = "Num 3 0 (n_int 7)"
                and s' = example_initial and v = "py_int 7"
                and ?st0.0 = example_good_statement and ?self0.0 = example_initial
                and st0' = example_good_statement and s0' = example_initial and ?u0.0 = "()"
                and m = "Module [example_good_statement]" and selfm = example_initial
                and m' = "Module [example_good_statement]" and sm' = example_initial and um = "()"
                and pre = "[]" and ?self1.0 = example_initial and pre' = "[]" and ?s1.0 = example_initial
                and st = example_bad_statement and st' = example_bad_statement and ?s2.0 = ?bad
                and x = ?x and post = "[example_later_statement]"
                and args = example_no_arguments and ?self2.0 = "example_scopes\<lparr>current_method := None\<rparr>"
                and args' = example_no_arguments and sa = "example_scopes\<lparr>current_method := None\<rparr>"
                and name = "''f''" and meth = example_method
                and body = "[example_good_statement]" and body' = "[example_good_statement]"
                and sb = example_scopes and bst = example_bad_statement and bst' = example_bad_statement
                and sc = "example_scopes\<lparr>errors := [InvalidType 1 0 ''float'']\<rparr>" and y = ?x
                and lineno = 1 and col = 0 and rest = "[example_later_statement]"]
  have "visit_Module example_externals (Module ([] @ example_bad_statement # [example_later_statement]))
          example_initial
        = (Module ([] @ example_bad_statement # [example_later_statement]), ?bad, Inl ?x)"
    using t pre bad1 by blast
  then have "TypeAnalyser_init example_externals example_two_errors [] = (example_two_errors, ?bad, Inl ?x)"
    by (simp add: TypeAnalyser_init_def example_two_errors_def example_initial_def
          example_bad_statement_def example_later_statement_def)
  moreover have "visit_stmt example_externals
        (FunctionDef 1 0 ''f'' example_no_arguments
           ([example_good_statement] @ example_bad_statement # [example_later_statement]))
        (example_scopes\<lparr>current_method := None\<rparr>) =
     (FunctionDef 1 0 ''f'' example_no_arguments
           ([example_good_statement] @ example_bad_statement # [example_later_statement]),
      example_scopes\<lparr>errors := [InvalidType 1 0 ''float'']\<rparr>,
      Inl (Compiler (InvalidType 1 0 ''float'')))"
    using t args f body bad2 by blast
  moreover have "errors example_initial = errors example_initial"
    using t e good [of example_initial] m by blast
  ultimately show ?thesis by blast
qed

text \<open>
  The module of the two statements \<open>1.5\<close> and \<open>2j\<close>: the walk ends at the first one; the
  diagnostic that the second one yields when it is visited is not logged.
\<close>

theorem resume_at_next_statement_counterexample:
  "errors (fst (snd (TypeAnalyser_init example_externals example_two_errors [])))
     = [InvalidType 1 0 ''float'']
   \<and> snd (snd (TypeAnalyser_init example_externals example_two_errors []))
     = Inl (Compiler (InvalidType 1 0 ''float''))
   \<and> errors (fst (snd (visit_stmt example_externals example_later_statement example_initial)))
     = [InvalidType 2 0 ''complex'']
   \<and> InvalidType 2 0 ''complex''
       \<notin> set (errors (fst (snd (TypeAnalyser_init example_externals example_two_errors []))))"
  by (simp add: TypeAnalyser_init_def example_two_errors_def example_bad_statement_def
        example_later_statement_def example_initial_def visit_Num_def log_error_def)

subsection \<open>The order of the diagnostics\<close>

text \<open>
  C2 (the code at the failing input). Diagnostics are to appear in depth-first,
  left-to-right order, the left operand before the right one. \<open>visit_BinOp\<close> visits
  \<open>bin_op.right\<close> before \<open>bin_op.left\<close>: of the expression \<open>1.5 + 2j\<close>, whose two operands
  each yield a diagnostic when visited, the diagnostic of the right operand (column 6)
  is the one appended, and the diagnostic of the left operand (column 0) is not in the
  list. The sibling visitors walk from the left: of \<open>1.5 < 2j\<close>, \<open>1.5 and 2j\<close> and
  \<open>1.5[2j]\<close> the diagnostic appended is that of the left operand.
\<close>

theorem BinOp_visits_right_operand_first:
  "visit example_externals example_two_operands example_initial =
     (example_two_operands, example_initial\<lparr>errors := [InvalidType 1 6 ''complex'']\<rparr>,
      Inl (Compiler (InvalidType 1 6 ''complex'')))
   \<and> visit example_externals (Num 1 0 (n_float ''1.5'')) example_initial =
     (Num 1 0 (n_float ''1.5''), example_initial\<lparr>errors := [InvalidType 1 0 ''float'']\<rparr>,
      Inl (Compiler (InvalidType 1 0 ''float'')))
   \<and> visit example_externals (Num 1 6 (n_complex ''2j'')) example_initial =
     (Num 1 6 (n_complex ''2j''), example_initial\<lparr>errors := [InvalidType 1 6 ''complex'']\<rparr>,
      Inl (Compiler (InvalidType 1 6 ''complex'')))
   \<and> InvalidType 1 0 ''float''
       \<notin> set (errors (fst (snd (visit example_externals example_two_operands example_initial))))
   \<and> visit example_externals example_compare_operands example_initial =
     (example_compare_operands, example_initial\<lparr>errors := [InvalidType 1 0 ''float'']\<rparr>,
      Inl (Compiler (InvalidType 1 0 ''float'')))
   \<and> visit example_externals example_bool_operands example_initial =
     (example_bool_operands, example_initial\<lparr>errors := [InvalidType 1 0 ''float'']\<rparr>,
      Inl (Compiler (InvalidType 1 0 ''float'')))
   \<and> visit example_externals example_subscript_operands example_initial =
     (example_subscript_operands, example_initial\<lparr>errors := [InvalidType 1 0 ''float'']\<rparr>,
      Inl (Compiler (InvalidType 1 0 ''float'')))"
  by (simp add: example_two_operands_def example_compare_operands_def example_bool_operands_def
        example_subscript_operands_def example_initial_def visit_Num_def log_error_def
        except_MismatchedTypes_def)

subsection \<open>The operation recorded for a boolean operation\<close>

lemma except_MismatchedTypes_raises:
  "except_MismatchedTypes l c s e = (s', r) \<Longrightarrow> \<exists>e'. r = Inl e'"
  by (auto simp: except_MismatchedTypes_def log_error_def
           split: pyexn.splits CompilerError.splits if_splits)

lemma log_error_raises: "log_error s e = (s', r) \<Longrightarrow> r = Inl (Compiler e)"
  by (auto simp: log_error_def)

lemma BoolOp_loop_keeps_first:
  "BoolOp_loop ext oper vs l line col (Some b) (Some t) self = (vs', s', line', col', Inr (bo, rt))
     \<Longrightarrow> bo = Some b \<and> rt = Some t"
proof (induction vs arbitrary: l line col self vs' s' line' col')
  case Nil
  then show ?case by simp
next
  case (Cons operand rest)
  then show ?case
    by (auto split: prod.splits sum.splits option.splits)
qed

lemma get_bin_op_validate:
  "get_bin_op ext self oper right left = Inr operation
     \<Longrightarrow> \<exists>l_type r_type. get_type ext self left = Inr l_type \<and> get_type ext self right = Inr r_type
           \<and> BinaryOp_validate_type ext oper l_type r_type = Some operation"
  by (auto simp: get_bin_op_def split: sum.splits option.splits)

text \<open>
  C7. A boolean operation of at least two operands whose visit returns normally (every
  operand was walked and every adjacent pair resolved to an operation): the operator
  slot holds the operation that the registry resolved for the first pair of operands,
  whatever the later pairs resolved to, and the value returned is the result type of
  that operation.
\<close>

theorem BoolOp_records_first_operation:
  assumes "visit ext (BoolOp lineno col op (v0 # v1 # rest)) self = (node', s', Inr ret)"
  shows "\<exists>oper v0' l_operand v1' r_operand l_type r_type operation vals'.
           get_operator op = Some oper
         \<and> visit ext v0 self = (v0', self, Inr l_operand)
         \<and> visit ext v1 self = (v1', self, Inr r_operand)
         \<and> get_type ext self l_operand = Inr l_type
         \<and> get_type ext self r_operand = Inr r_type
         \<and> BinaryOp_validate_type ext oper l_type r_type = Some operation
         \<and> node' = BoolOp lineno col (slot_BinaryOperation operation) (v0' # v1' # vals')
         \<and> ret = py_type (result operation)
         \<and> s' = self"
proof -
  obtain oper where oper: "get_operator op = Some oper"
    using assms by (cases "get_operator op") (auto dest: log_error_raises split: prod.splits)
  obtain v0' s1 r1 where v0: "visit ext v0 self = (v0', s1, r1)"
    by (cases "visit ext v0 self") auto
  obtain l_operand where r1: "r1 = Inr l_operand"
    using assms oper v0
    by (cases r1) (auto dest: except_MismatchedTypes_raises split: prod.splits)
  have s1: "s1 = self"
    using visit_only_logs [OF v0] r1 by simp
  obtain rest1 s2 line' col' r2
    where loop: "BoolOp_loop ext oper (v1 # rest) l_operand lineno col None None self
                   = (rest1, s2, line', col', r2)"
    by (cases "BoolOp_loop ext oper (v1 # rest) l_operand lineno col None None self") auto
  obtain bo rt where r2: "r2 = Inr (bo, rt)"
    using assms oper v0 r1 s1 loop
    by (cases r2) (auto dest: except_MismatchedTypes_raises split: prod.splits)
  have node: "node' = BoolOp lineno col
                 (case bo of None \<Rightarrow> slot_None | Some operation \<Rightarrow> slot_BinaryOperation operation)
                 (v0' # rest1)"
    and ret: "ret = (case rt of None \<Rightarrow> py_None | Some t \<Rightarrow> py_type t)"
    and s': "s' = s2"
    using assms oper v0 r1 s1 loop r2 by auto
  obtain v1' s3 r3 where v1: "visit ext v1 self = (v1', s3, r3)"
    by (cases "visit ext v1 self") auto
  obtain r_operand where r3: "r3 = Inr r_operand"
    using loop r2 v1 by (cases r3) auto
  have s3: "s3 = self"
    using visit_only_logs [OF v1] r3 by simp
  obtain operation where g: "get_bin_op ext self oper r_operand l_operand = Inr operation"
    using loop r2 v1 r3 s3
    by (cases "get_bin_op ext self oper r_operand l_operand") auto
  obtain line1 col1 where p: "position v1' = Some (line1, col1)"
    using loop r2 v1 r3 s3 g by (cases "position v1'") auto
  obtain vals' where tail:
    "BoolOp_loop ext oper rest r_operand line1 col1 (Some operation) (Some (result operation)) self
       = (vals', s2, line', col', Inr (bo, rt))"
    and rest1: "rest1 = v1' # vals'"
    using loop r2 v1 r3 s3 g p by (auto split: prod.splits)
  have first: "bo = Some operation" "rt = Some (result operation)"
    using BoolOp_loop_keeps_first [OF tail] by simp_all
  have self: "s' = self"
    using visit_only_logs [OF assms] by simp
  obtain l_type r_type
    where types: "get_type ext self l_operand = Inr l_type" "get_type ext self r_operand = Inr r_type"
          "BinaryOp_validate_type ext oper l_type r_type = Some operation"
    using get_bin_op_validate [OF g] by blast
  have "get_operator op = Some oper
         \<and> visit ext v0 self = (v0', self, Inr l_operand)
         \<and> visit ext v1 self = (v1', self, Inr r_operand)
         \<and> get_type ext self l_operand = Inr l_type
         \<and> get_type ext self r_operand = Inr r_type
         \<and> BinaryOp_validate_type ext oper l_type r_type = Some operation
         \<and> node' = BoolOp lineno col (slot_BinaryOperation operation) (v0' # v1' # vals')
         \<and> ret = py_type (result operation)
         \<and> s' = self"
    using oper v0 r1 s1 v1 r3 s3 node ret first rest1 self types by simp
  then show ?thesis by blast
qed

theorem BoolOp_records_first_operation_witness:
  "visit example_externals example_bool_chain example_initial =
     (BoolOp 1 0 (slot_BinaryOperation BooleanAnd)
        [NameConstant 1 0 c_True, NameConstant 1 9 c_False, NameConstant 1 19 c_True],
      example_initial, Inr (py_type Type_bool))"
proof -
  have v: "BinaryOp_validate_type example_externals Operator_And Type_bool Type_bool = Some BooleanAnd"
    by (simp add: example_externals_def registry_validate_type_def example_registry_def
          Addition_def Concat_fields BooleanAnd_def)
  have t: "get_type example_externals s (py_bool b) = Inr Type_bool" for s b
    by (simp add: get_type_def example_externals_def example_get_type_def IntType_build_def
          IntType_is_type_of_def)
  have g: "get_bin_op example_externals s Operator_And (py_bool b) (py_bool c) = Inr BooleanAnd" for s b c
    by (simp add: get_bin_op_def t v)
  have e: "visit example_externals
             (BoolOp 1 0 (slot_ast ast_And)
                (NameConstant 1 0 c_True # NameConstant 1 9 c_False # [NameConstant 1 19 c_True]))
             example_initial =
           (BoolOp 1 0 (slot_BinaryOperation BooleanAnd)
              [NameConstant 1 0 c_True, NameConstant 1 9 c_False, NameConstant 1 19 c_True],
            example_initial, Inr (py_type (result BooleanAnd)))"
    by (simp add: g)
  show ?thesis
    using BoolOp_records_first_operation [OF e] e
    by (simp add: example_bool_chain_def BooleanAnd_def)
qed

subsection \<open>Analysing a rewritten tree again\<close>

lemmas example_registry_simps =
  example_externals_def registry_validate_type_def registry_get_operation_by_operator_def
  example_registry_def Addition_def BooleanAnd_def LessThan_def Concat_def Concat_init_def
  Concat_validate_type_def Concat_get_result_def Concat_is_supported_def Concat_valid_types_def
  BinaryOperation_get_number_of_operands_def example_get_type_def IntType_build_def
  IntType_is_type_of_def

text \<open>
  C8 (the code at the failing input). \<open>get_operator\<close> accepts an \<open>Operator\<close> in the slot,
  but the slot of a resolved node holds an operation, for which it returns \<open>None\<close>. The
  first analysis of \<open>def f(a: int, b: int) -> int: return a + b\<close> logs nothing and puts
  the integer addition into the slot; the analysis of the rewritten tree logs
  \<open>UnresolvedReference\<close> and ends with that exception.
\<close>

theorem reanalysis_rejects_resolved_slot:
  "get_operator (slot_BinaryOperation operation) = None
   \<and> BinOp_check ext lineno col (slot_BinaryOperation operation) r_operand l_operand self =
       (slot_BinaryOperation operation,
        self\<lparr>errors := errors self @ [UnresolvedReference lineno col (class_name operation)]\<rparr>,
        Inl (Compiler (UnresolvedReference lineno col (class_name operation))))
   \<and> TypeAnalyser_init example_externals (example_add_function (slot_ast ast_Add)) example_add_symbols =
       (example_add_function (slot_BinaryOperation Addition),
        \<lparr> errors = [], modules = [], symbols = example_add_symbols, current_method = None \<rparr>,
        Inr ())
   \<and> TypeAnalyser_init example_externals (example_add_function (slot_BinaryOperation Addition))
         example_add_symbols =
       (example_add_function (slot_BinaryOperation Addition),
        \<lparr> errors = [UnresolvedReference 1 37 ''Addition''], modules = [],
          symbols = example_add_symbols,
          current_method = map_of example_add_symbols ''f'' \<rparr>,
        Inl (Compiler (UnresolvedReference 1 37 ''Addition'')))"
  by (simp add: TypeAnalyser_init_def example_add_function_def example_add_symbols_def
        Return_check_def current_return_type_def BinOp_check_def get_bin_op_def get_type_def
        get_symbol_def log_error_def example_registry_simps)

subsection \<open>An inner error under a comparison\<close>

text \<open>
  C3 (the code at the failing input). The expression \<open>(1 + "a") < 2\<close> holds one type
  error, in the addition. \<open>visit_BinOp\<close> logs \<open>MismatchedTypes\<close> at the addition, and the
  handler of \<open>visit_Compare\<close>, whose \<open>try\<close> encloses the visit of the operands, logs it
  again at the comparison: two diagnostics.
\<close>

theorem Compare_relogs_inner_error:
  "visit example_externals example_nested_mismatch example_initial =
     (example_nested_mismatch,
      example_initial\<lparr>errors :=
        [MismatchedTypes 1 1 (format_types ''int'' ''int'') (format_types ''int'' ''str'') True,
         MismatchedTypes 1 0 (format_types ''int'' ''int'') (format_types ''int'' ''str'') True]\<rparr>,
      Inl (Compiler (MismatchedTypes 1 0 (format_types ''int'' ''int'')
                       (format_types ''int'' ''str'') True)))"
  by (simp add: example_nested_mismatch_def example_initial_def visit_Num_def BinOp_check_def
        get_bin_op_def get_type_def except_MismatchedTypes_def log_error_def
        example_registry_simps)

end
